theory Spec2Isabelle
  imports Main
begin

section \<open>DOM elements: class list and inline style\<close>

text \<open>
  An element is what the plugin reads and writes of a DOM node: its \<open>classList\<close> (an
  ordered list of distinct tokens) and its inline \<open>style\<close>, a partial map from a
  property name to the pair of its text and its priority (\<open>''important''\<close> throughout
  the plugin).
\<close>

type_synonym css_decl = "string \<times> string"

record element =
  classList :: "string list"
  style :: "string \<rightharpoonup> css_decl"

definition classList_add :: "string \<Rightarrow> element \<Rightarrow> element" where
  "classList_add c el =
     (if c \<in> set (classList el) then el else el\<lparr>classList := classList el @ [c]\<rparr>)"

definition classList_remove :: "string \<Rightarrow> element \<Rightarrow> element" where
  "classList_remove c el = el\<lparr>classList := removeAll c (classList el)\<rparr>"

definition classList_contains :: "string \<Rightarrow> element \<Rightarrow> bool" where
  "classList_contains c el = (c \<in> set (classList el))"

definition removeProperty :: "string \<Rightarrow> element \<Rightarrow> element" where
  "removeProperty p el = el\<lparr>style := (style el)(p := None)\<rparr>"

text \<open>
  The browser stores a declaration only when its text parses as a value of the property.
  The verdict of the CSS parser is written down for the texts the plugin passes. The fixed
  texts of \<open>css_fixed\<close> are values of their properties; the text of one space that the
  plugin passes for \<open>content\<close> is not among them: it holds no value. For
  \<open>background-image\<close> the plugin passes \<open>url("...")\<close> around the URL it received,
  unescaped. This is the URL function around a string, and the string is the URL, when
  the URL holds no double quote (the string would end there), no backslash (an escape),
  and no control character (a line break breaks the string, the others are stored
  escaped); such a URL is \<open>css_plain\<close>. Any other text counts as not parsing.
\<close>

definition css_fixed :: "(string \<times> string) list" where
  "css_fixed =
     [(''display'', ''block''), (''display'', ''none''),
      (''visibility'', ''visible''), (''visibility'', ''hidden''),
      (''opacity'', ''1''), (''opacity'', ''0''),
      (''background-repeat'', ''no-repeat''), (''background-size'', ''contain''),
      (''height'', ''32px''), (''width'', ''32px''), (''position'', ''absolute''),
      (''right'', ''-14px''), (''top'', ''-14px''), (''pointer-events'', ''none''),
      (''cursor'', ''default''), (''-webkit-user-select'', ''none''),
      (''list-style-type'', ''none'')]"

definition css_plain :: "string \<Rightarrow> bool" where
  "css_plain u =
     list_all (\<lambda>c. c \<noteq> CHR 0x22 \<and> c \<noteq> CHR 0x5C \<and> c \<noteq> CHR 0x7F \<and> 32 \<le> (of_char c :: nat)) u"

text \<open>The text between \<open>url("\<close> and \<open>")\<close>, for a text of this form.\<close>

definition url_body :: "string \<Rightarrow> string option" where
  "url_body v =
     (case v of
        c1 # c2 # c3 # c4 # c5 # rest \<Rightarrow>
          if [c1, c2, c3, c4, c5] = [CHR ''u'', CHR ''r'', CHR ''l'', CHR ''('', CHR 0x22]
          then (case rev rest of
                  r1 # r2 # mid \<Rightarrow>
                    if r1 = CHR '')'' \<and> r2 = CHR 0x22 then Some (rev mid) else None
                | _ \<Rightarrow> None)
          else None
      | _ \<Rightarrow> None)"

definition css_parses :: "string \<Rightarrow> string \<Rightarrow> bool" where
  "css_parses p v =
     (if p = ''background-image''
      then (case url_body v of None \<Rightarrow> False | Some u \<Rightarrow> css_plain u)
      else (p, v) \<in> set css_fixed)"

text \<open>
  \<open>setProperty\<close>, as CSSOM has it: an empty text removes the property; a priority
  that is neither empty nor \<open>important\<close>, and a text that does not parse, leave the
  element as it is.
\<close>

definition setProperty :: "string \<Rightarrow> string \<Rightarrow> string \<Rightarrow> element \<Rightarrow> element" where
  "setProperty p v prio el =
     (if v = [] then removeProperty p el
      else if prio \<noteq> [] \<and> prio \<noteq> ''important'' then el
      else if \<not> css_parses p v then el
      else el\<lparr>style := (style el)(p \<mapsto> (v, prio))\<rparr>)"

text \<open>\<open>getPropertyValue\<close> answers the empty string for a property that is not set.\<close>

definition getPropertyValue :: "string \<Rightarrow> element \<Rightarrow> string" where
  "getPropertyValue p el = (case style el p of None \<Rightarrow> [] | Some (v, prio) \<Rightarrow> v)"

text \<open>\<open>String.prototype.includes\<close>: the needle occurs at some position of the text.\<close>

fun includes_str :: "string \<Rightarrow> string \<Rightarrow> bool" where
  "includes_str [] needle = (needle = [])"
| "includes_str (c # cs) needle =
     (take (length needle) (c # cs) = needle \<or> includes_str cs needle)"

definition HISTORIC_CLASS :: string where
  "HISTORIC_CLASS = ''lu-historic-flag-active''"

definition RANDOM_CLASS :: string where
  "RANDOM_CLASS = ''lu-random-flag-active''"

definition HISTORIC_FLAG_ASSET_PATH :: string where
  "HISTORIC_FLAG_ASSET_PATH = ''historic_flag.png''"

text \<open>The template literal \<open>url("${historicFlagImageUrl}")\<close>.\<close>

definition css_url :: "string \<Rightarrow> string" where
  "css_url u = ''url('' @ [CHR 0x22] @ u @ [CHR 0x22] @ '')''"

text \<open>
  The thirteen presentation properties that \<open>updateHistoricFlag\<close> writes after the
  three visibility properties and that \<open>hideFlagOnElement\<close> removes, in the order of
  the source.
\<close>

definition shared_props :: "string list" where
  "shared_props =
     [''background-image'', ''background-repeat'', ''background-size'', ''height'', ''width'',
      ''position'', ''right'', ''top'', ''pointer-events'', ''cursor'', ''-webkit-user-select'',
      ''list-style-type'', ''content'']"

definition visibility_props :: "string list" where
  "visibility_props = [''display'', ''visibility'', ''opacity'']"

text \<open>
  The apply step of \<open>updateHistoricFlag\<close> (the branch taken when historic mode is
  active and the image URL is known): force the element visible, add the marker class,
  write the presentation properties.
\<close>

definition applyFlag :: "string \<Rightarrow> element \<Rightarrow> element" where
  "applyFlag url el =
     (setProperty ''content'' '' '' ''important'' \<circ>
      setProperty ''list-style-type'' ''none'' ''important'' \<circ>
      setProperty ''-webkit-user-select'' ''none'' ''important'' \<circ>
      setProperty ''cursor'' ''default'' ''important'' \<circ>
      setProperty ''pointer-events'' ''none'' ''important'' \<circ>
      setProperty ''top'' ''-14px'' ''important'' \<circ>
      setProperty ''right'' ''-14px'' ''important'' \<circ>
      setProperty ''position'' ''absolute'' ''important'' \<circ>
      setProperty ''width'' ''32px'' ''important'' \<circ>
      setProperty ''height'' ''32px'' ''important'' \<circ>
      setProperty ''background-size'' ''contain'' ''important'' \<circ>
      setProperty ''background-repeat'' ''no-repeat'' ''important'' \<circ>
      setProperty ''background-image'' (css_url url) ''important'' \<circ>
      classList_add HISTORIC_CLASS \<circ>
      setProperty ''opacity'' ''1'' ''important'' \<circ>
      setProperty ''visibility'' ''visible'' ''important'' \<circ>
      setProperty ''display'' ''block'' ''important'') el"

text \<open>
  \<open>hideFlagOnElement\<close> on a node that is not null. The marker class goes first; then,
  unless the random-flag class is on the element, all thirteen properties are removed and
  the element is hidden; with the random-flag class only the background image is removed,
  and only when its text includes the asset's file name.
\<close>

definition hideFlag :: "element \<Rightarrow> element" where
  "hideFlag el0 =
     (let el = classList_remove HISTORIC_CLASS el0;
          hasRandomFlag = classList_contains RANDOM_CLASS el
      in if \<not> hasRandomFlag then
           (setProperty ''opacity'' ''0'' ''important'' \<circ>
            setProperty ''visibility'' ''hidden'' ''important'' \<circ>
            setProperty ''display'' ''none'' ''important'' \<circ>
            removeProperty ''content'' \<circ>
            removeProperty ''list-style-type'' \<circ>
            removeProperty ''-webkit-user-select'' \<circ>
            removeProperty ''cursor'' \<circ>
            removeProperty ''pointer-events'' \<circ>
            removeProperty ''top'' \<circ>
            removeProperty ''right'' \<circ>
            removeProperty ''position'' \<circ>
            removeProperty ''width'' \<circ>
            removeProperty ''height'' \<circ>
            removeProperty ''background-size'' \<circ>
            removeProperty ''background-repeat'' \<circ>
            removeProperty ''background-image'') el
         else
           (let bgImage = getPropertyValue ''background-image'' el
            in if bgImage \<noteq> [] \<and> includes_str bgImage HISTORIC_FLAG_ASSET_PATH
               then removeProperty ''background-image'' el
               else el))"


section \<open>Bridge port resolver\<close>

text \<open>
  \<open>loadBridgePort\<close> reads and writes one key of \<open>localStorage\<close>, the variable
  \<open>BRIDGE_PORT\<close>, and issues HTTP requests. The answers of the network are a parameter:
  for a path and a port, the request either throws (a network error, or the abort at the
  timeout) or settles with a response, of which the code reads \<open>ok\<close> and the body text.
  \<open>fetches\<close> records the requests issued, in the order of issue.
\<close>

datatype probe_result = Throws | Response bool string

type_synonym fetch_env = "string \<Rightarrow> int \<Rightarrow> probe_result"

record resolver =
  BRIDGE_PORT :: int
  storage :: "string option"
  fetches :: "(int \<times> string) list"

text \<open>
  The white space that \<open>trim\<close> and \<open>parseInt\<close> skip, as far as ASCII goes: the
  Unicode spaces beyond it are not white space here.
\<close>

definition is_ws :: "char \<Rightarrow> bool" where
  "is_ws c = (c \<in> set [CHR '' '', CHR 0x09, CHR 0x0A, CHR 0x0B, CHR 0x0C, CHR 0x0D])"

definition trim :: "string \<Rightarrow> string" where
  "trim s = rev (dropWhile is_ws (rev (dropWhile is_ws s)))"

definition digit_of :: "char \<Rightarrow> nat option" where
  "digit_of c = map_of (zip ''0123456789'' [0, 1, 2, 3, 4, 5, 6, 7, 8, 9]) c"

text \<open>
  \<open>parseInt(s, 10)\<close>: leading white space is skipped, a sign is read, then the longest
  run of decimal digits; with no digit the result is \<open>NaN\<close>, here \<open>None\<close>. The
  digits are read as an exact integer: the rounding to a double, which starts above
  \<open>2^53\<close>, is left out.
\<close>

definition js_parseInt :: "string \<Rightarrow> int option" where
  "js_parseInt s =
     (let t = dropWhile is_ws s;
          neg = (case t of [] \<Rightarrow> False | c # r \<Rightarrow> c = CHR ''-'');
          r = (case t of [] \<Rightarrow> [] | c # r \<Rightarrow> if c = CHR ''-'' \<or> c = CHR ''+'' then r else t);
          ds = takeWhile (\<lambda>c. digit_of c \<noteq> None) r;
          n = foldl (\<lambda>a c. 10 * a + (case digit_of c of None \<Rightarrow> 0 | Some d \<Rightarrow> d)) 0 ds
      in if ds = [] then None else Some (if neg then - int n else int n))"

text \<open>
  \<open>String(n)\<close> for an integer: its decimal digits (the exponent form that JavaScript
  writes from \<open>1e21\<close> on is left out).
\<close>

fun digits_of_nat :: "nat \<Rightarrow> string" where
  "digits_of_nat n =
     (if n < 10 then [''0123456789'' ! n]
      else digits_of_nat (n div 10) @ [''0123456789'' ! (n mod 10)])"

definition String_of_int :: "int \<Rightarrow> string" where
  "String_of_int i = (if i < 0 then CHR ''-'' # digits_of_nat (nat (- i)) else digits_of_nat (nat i))"

definition DISCOVERY_START_PORT :: int where
  "DISCOVERY_START_PORT = 50000"

definition DISCOVERY_END_PORT :: int where
  "DISCOVERY_END_PORT = 50010"

text \<open>The loop \<open>for (port = DISCOVERY_START_PORT + 1; port <= DISCOVERY_END_PORT; port++)\<close>.\<close>

definition sweep_ports :: "int list" where
  "sweep_ports = [DISCOVERY_START_PORT + 1 ..DISCOVERY_END_PORT]"

definition issue :: "int \<Rightarrow> string \<Rightarrow> resolver \<Rightarrow> resolver" where
  "issue port path r = r\<lparr>fetches := fetches r @ [(port, path)]\<rparr>"

text \<open>
  The first block: the cached port. The result is the port number read from the answer,
  if the block returns \<open>true\<close>. Only the \<open>catch\<close> removes the stored key.
\<close>

definition try_cached :: "fetch_env \<Rightarrow> resolver \<Rightarrow> int option \<times> resolver" where
  "try_cached env r =
     (case storage r of
        None \<Rightarrow> (None, r)
      | Some cachedPort \<Rightarrow>
          if cachedPort = [] then (None, r)
          else (case js_parseInt cachedPort of
                  None \<Rightarrow> (None, r)
                | Some port \<Rightarrow>
                    if \<not> 0 < port then (None, r)
                    else (let r1 = issue port ''/bridge-port'' r
                          in case env ''/bridge-port'' port of
                               Throws \<Rightarrow> (None, r1\<lparr>storage := None\<rparr>)
                             | Response ok portText \<Rightarrow>
                                 if ok then
                                   (case js_parseInt (trim portText) of
                                      None \<Rightarrow> (None, r1)
                                    | Some fetchedPort \<Rightarrow>
                                        if 0 < fetchedPort
                                        then (Some fetchedPort, r1\<lparr>BRIDGE_PORT := fetchedPort\<rparr>)
                                        else (None, r1))
                                 else (None, r1))))"

text \<open>The second block: port 50000 on the discovery path; a port found is stored.\<close>

definition try_default :: "fetch_env \<Rightarrow> resolver \<Rightarrow> int option \<times> resolver" where
  "try_default env r =
     (let r1 = issue 50000 ''/bridge-port'' r
      in case env ''/bridge-port'' 50000 of
           Throws \<Rightarrow> (None, r1)
         | Response ok portText \<Rightarrow>
             if ok then
               (case js_parseInt (trim portText) of
                  None \<Rightarrow> (None, r1)
                | Some fetchedPort \<Rightarrow>
                    if 0 < fetchedPort
                    then (Some fetchedPort,
                          r1\<lparr>BRIDGE_PORT := fetchedPort, storage := Some (String_of_int fetchedPort)\<rparr>)
                    else (None, r1))
             else (None, r1))"

text \<open>
  One promise of a sweep: \<open>fetch(...).then(...).catch(() => null)\<close>. Its value is
  \<open>{port, sourcePort}\<close> or \<open>null\<close>.
\<close>

definition sweep_promise :: "fetch_env \<Rightarrow> string \<Rightarrow> int \<Rightarrow> (int \<times> int) option" where
  "sweep_promise env path port =
     (case env path port of
        Throws \<Rightarrow> None
      | Response ok portText \<Rightarrow>
          if ok then
            (case js_parseInt (trim portText) of
               None \<Rightarrow> None
             | Some fetchedPort \<Rightarrow> if 0 < fetchedPort then Some (fetchedPort, port) else None)
          else None)"

text \<open>
  A sweep: all requests are issued, \<open>Promise.allSettled\<close> waits for all of them, and the
  loop over the results, which are in the order of the ports, takes the first that
  is not \<open>null\<close>.
\<close>

definition sweep :: "fetch_env \<Rightarrow> string \<Rightarrow> resolver \<Rightarrow> int option \<times> resolver" where
  "sweep env path r =
     (let r1 = r\<lparr>fetches := fetches r @ map (\<lambda>port. (port, path)) sweep_ports\<rparr>;
          results = map (sweep_promise env path) sweep_ports
      in case List.find (\<lambda>res. res \<noteq> None) results of
           Some (Some (fetchedPort, sourcePort)) \<Rightarrow>
             (Some fetchedPort,
              r1\<lparr>BRIDGE_PORT := fetchedPort, storage := Some (String_of_int fetchedPort)\<rparr>)
         | _ \<Rightarrow> (None, r1))"

definition loadBridgePort :: "fetch_env \<Rightarrow> resolver \<Rightarrow> bool \<times> resolver" where
  "loadBridgePort env r =
     (case try_cached env r of
        (Some p, r1) \<Rightarrow> (True, r1)
      | (None, r1) \<Rightarrow>
          (case try_default env r1 of
             (Some p, r2) \<Rightarrow> (True, r2)
           | (None, r2) \<Rightarrow>
               (case sweep env ''/bridge-port'' r2 of
                  (Some p, r3) \<Rightarrow> (True, r3)
                | (None, r3) \<Rightarrow>
                    (case sweep env ''/port'' r3 of
                       (Some p, r4) \<Rightarrow> (True, r4)
                     | (None, r4) \<Rightarrow> (False, r4)))))"


section \<open>The plugin's state\<close>

text \<open>
  The module's variables, the part of the page it reads and writes, its pending timers and
  its outputs are one record. The document is a tree of node identities (\<open>body\<close>) over
  a store of elements (\<open>elems\<close>): a node the plugin holds in
  \<open>currentRewardsElement\<close> may have left the tree and is still written through its
  identity. \<open>wire\<close> lists what was handed to \<open>WebSocket.send\<close> and \<open>console\<close> what
  \<open>log\<close> printed, both in order. Time stamps and the \<open>data\<close> objects of log records take
  no part in the control flow and are left out of the messages.
\<close>

datatype ready_state = CONNECTING | OPEN | CLOSING | CLOSED

datatype message = ChromaLog string string | RequestLocalAsset string

datatype timer =
    UpdateTimer nat
  | RetryTimer
  | BridgeRetryTimer
  | PopupTimer nat

datatype dtree = DNode nat "dtree list"

record popup_layer =
  pid :: nat
  ptext :: string

record state =
  bridgeSocket :: "ready_state option"
  bridgeReady :: bool
  bridgeQueue :: "message list"
  wire :: "message list"
  console :: "(string \<times> string) list"
  historicModeActive :: bool
  currentRewardsElement :: "nat option"
  historicFlagImageUrl :: "string option"
  pendingHistoricFlagRequest :: "string \<rightharpoonup> bool"
  isInChampSelect :: bool
  retryCount :: "nat option"
  timers :: "timer list"
  body :: "dtree list"
  elems :: "nat \<Rightarrow> element"
  popup :: "popup_layer option"
  popupSeq :: nat
  wsThrows :: bool

text \<open>
  The inbound messages: \<open>historic-state\<close> with \<open>active === true\<close> and the optional
  \<open>historicSkinName\<close>; \<open>local-asset-url\<close> with \<open>assetPath\<close> and \<open>url\<close>;
  \<open>phase-change\<close> with \<open>phase\<close>; any other \<open>type\<close>. A field that is missing is
  \<open>None\<close>.
\<close>

datatype payload =
    HistoricState bool "string option"
  | LocalAssetUrl "string option" "string option"
  | PhaseChange "string option"
  | OtherType

text \<open>
  What can happen to the plugin after \<open>init\<close>: a frame arrives and parses
  (\<open>Message\<close>) or does not (\<open>BadMessage\<close>); the pending timer at a position fires; the
  mutation observer's callback runs; the socket opens, starts its closing handshake,
  reports an error or closes; the user clicks the label's close button; the page changes
  its tree and its elements; the environment decides whether the next
  \<open>new WebSocket\<close> throws. Timers fire in any order: the delays are kept in the
  timers for the reader only.
\<close>

datatype event =
    Message payload
  | BadMessage
  | Fire nat
  | Mutation
  | SocketOpen
  | SocketClosing
  | SocketError
  | SocketClose
  | PopupClose
  | EnvDom "dtree list" "nat \<Rightarrow> element"
  | EnvCtor bool

section \<open>Logger and outbound queue\<close>

text \<open>The branch shared by \<open>log\<close> and \<open>requestHistoricFlagImage\<close>: send, or queue.\<close>

definition sendOrQueue :: "message \<Rightarrow> state \<Rightarrow> state" where
  "sendOrQueue m s =
     (if bridgeReady s \<and> bridgeSocket s = Some OPEN
      then s\<lparr>wire := wire s @ [m]\<rparr>
      else s\<lparr>bridgeQueue := bridgeQueue s @ [m]\<rparr>)"

definition log :: "string \<Rightarrow> string \<Rightarrow> state \<Rightarrow> state" where
  "log level msg s = (sendOrQueue (ChromaLog level msg) s)\<lparr>console := console s @ [(level, msg)]\<rparr>"

section \<open>Bridge client\<close>

definition scheduleBridgeRetry :: "state \<Rightarrow> state" where
  "scheduleBridgeRetry s = s\<lparr>timers := timers s @ [BridgeRetryTimer]\<rparr>"

definition setupBridgeSocket :: "state \<Rightarrow> state" where
  "setupBridgeSocket s =
     (if bridgeSocket s = Some OPEN then s
      else if wsThrows s
        then scheduleBridgeRetry (log ''error'' ''Failed to setup WebSocket bridge'' s)
        else s\<lparr>bridgeSocket := Some CONNECTING\<rparr>)"

definition bridgeRetryCallback :: "state \<Rightarrow> state" where
  "bridgeRetryCallback s = (if \<not> bridgeReady s then setupBridgeSocket s else s)"

definition flushBridgeQueue :: "state \<Rightarrow> state" where
  "flushBridgeQueue s =
     (if bridgeQueue s \<noteq> [] \<and> bridgeReady s \<and> bridgeSocket s = Some OPEN
      then s\<lparr>wire := wire s @ bridgeQueue s, bridgeQueue := []\<rparr>
      else s)"

definition onopen :: "state \<Rightarrow> state" where
  "onopen s = flushBridgeQueue ((log ''info'' ''WebSocket bridge connected'' s)\<lparr>bridgeReady := True\<rparr>)"

definition onerror :: "state \<Rightarrow> state" where
  "onerror s = log ''warn'' ''WebSocket bridge error'' s"

definition onclose :: "state \<Rightarrow> state" where
  "onclose s =
     scheduleBridgeRetry
       ((log ''info'' ''WebSocket bridge closed, reconnecting...'' s)
          \<lparr>bridgeReady := False, bridgeSocket := None\<rparr>)"

section \<open>The floating label\<close>

definition removeHistoricSkinName :: "state \<Rightarrow> state" where
  "removeHistoricSkinName s = s\<lparr>popup := None\<rparr>"

text \<open>
  \<open>resetTimer\<close>: the label's pending expiry is cleared and a new one of 125 s is set.
\<close>

definition resetTimer :: "nat \<Rightarrow> state \<Rightarrow> state" where
  "resetTimer p s = s\<lparr>timers := filter (\<lambda>t. t \<noteq> PopupTimer p) (timers s) @ [PopupTimer p]\<rparr>"

definition showSkinName :: "string \<Rightarrow> state \<Rightarrow> state" where
  "showSkinName skinName s =
     (case popup s of
        Some pl \<Rightarrow> resetTimer (pid pl) (s\<lparr>popup := Some (pl\<lparr>ptext := skinName\<rparr>)\<rparr>)
      | None \<Rightarrow>
          resetTimer (popupSeq s)
            (s\<lparr>popup := Some \<lparr>pid = popupSeq s, ptext = skinName\<rparr>, popupSeq := Suc (popupSeq s)\<rparr>))"

definition handleHistoricSkinNameUpdate :: "string option \<Rightarrow> state \<Rightarrow> state" where
  "handleHistoricSkinNameUpdate historicSkinName s =
     (case historicSkinName of
        None \<Rightarrow> removeHistoricSkinName s
      | Some n \<Rightarrow> if n \<noteq> [] \<and> n \<noteq> ''None'' then showSkinName n s else removeHistoricSkinName s)"

definition popupExpire :: "nat \<Rightarrow> state \<Rightarrow> state" where
  "popupExpire p s =
     (case popup s of
        None \<Rightarrow> s
      | Some pl \<Rightarrow> if pid pl = p then s\<lparr>popup := None\<rparr> else s)"

section \<open>Finding the target element\<close>

fun subtrees :: "dtree \<Rightarrow> dtree list" where
  "subtrees (DNode i ts) = DNode i ts # concat (map subtrees ts)"

fun root_id :: "dtree \<Rightarrow> nat" where
  "root_id (DNode i ts) = i"

fun descendants :: "dtree \<Rightarrow> dtree list" where
  "descendants (DNode i ts) = concat (map subtrees ts)"

definition doc_nodes :: "dtree list \<Rightarrow> dtree list" where
  "doc_nodes b = concat (map subtrees b)"

text \<open>A selector \<open>.a.b\<close> is the list of its class names.\<close>

definition matches :: "(nat \<Rightarrow> element) \<Rightarrow> string list \<Rightarrow> dtree \<Rightarrow> bool" where
  "matches es sel t = list_all (\<lambda>c. classList_contains c (es (root_id t))) sel"

definition querySelector :: "(nat \<Rightarrow> element) \<Rightarrow> string list \<Rightarrow> dtree list \<Rightarrow> dtree option" where
  "querySelector es sel scope = List.find (matches es sel) scope"

definition querySelectorAll :: "(nat \<Rightarrow> element) \<Rightarrow> string list \<Rightarrow> dtree list \<Rightarrow> dtree list" where
  "querySelectorAll es sel scope = filter (matches es sel) scope"

definition INFO_CLASS :: string where
  "INFO_CLASS = ''skin-selection-item-information''"

definition REWARDS_CLASS :: string where
  "REWARDS_CLASS = ''loyalty-reward-icon--rewards''"

definition REWARDS_SELECTOR :: "string list" where
  "REWARDS_SELECTOR = [INFO_CLASS, REWARDS_CLASS]"

fun carousel_scan :: "(nat \<Rightarrow> element) \<Rightarrow> dtree list \<Rightarrow> nat option" where
  "carousel_scan es [] = None"
| "carousel_scan es (item # items) =
     (case querySelector es [INFO_CLASS] (descendants item) of
        None \<Rightarrow> carousel_scan es items
      | Some info \<Rightarrow>
          if classList_contains REWARDS_CLASS (es (root_id info)) then Some (root_id info)
          else carousel_scan es items)"

definition findRewardsElement :: "state \<Rightarrow> nat option \<times> state" where
  "findRewardsElement s =
     (if \<not> isInChampSelect s then (None, s)
      else
        case (case querySelector (elems s) [''skin-selection-item'', ''skin-selection-item-selected'']
                     (doc_nodes (body s)) of
                None \<Rightarrow> None
              | Some selectedItem \<Rightarrow> querySelector (elems s) REWARDS_SELECTOR (descendants selectedItem)) of
          Some info \<Rightarrow>
            (Some (root_id info), log ''debug'' ''Found rewards element in selected skin item'' s)
        | None \<Rightarrow>
            (case querySelector (elems s) REWARDS_SELECTOR (doc_nodes (body s)) of
               Some element \<Rightarrow>
                 (Some (root_id element), log ''debug'' ''Found rewards element via direct selector'' s)
             | None \<Rightarrow>
                 (case (case querySelector (elems s) [''skin-selection-carousel''] (doc_nodes (body s)) of
                          None \<Rightarrow> None
                        | Some carousel \<Rightarrow>
                            carousel_scan (elems s)
                              (querySelectorAll (elems s) [''skin-selection-item''] (descendants carousel))) of
                    Some info \<Rightarrow>
                      (Some info, log ''debug'' ''Found rewards element in carousel item'' s)
                  | None \<Rightarrow>
                      (None, removeHistoricSkinName (log ''debug'' ''Rewards element not found anywhere'' s)))))"

section \<open>View synchronizer\<close>

definition hideFlagOnElement :: "nat option \<Rightarrow> state \<Rightarrow> state" where
  "hideFlagOnElement element s =
     (case element of
        None \<Rightarrow> s
      | Some i \<Rightarrow> s\<lparr>elems := (elems s)(i := hideFlag (elems s i))\<rparr>)"

text \<open>\<open>!historicFlagImageUrl\<close>: the variable is \<open>null\<close> or the empty string.\<close>

definition url_unset :: "string option \<Rightarrow> bool" where
  "url_unset u = (u = None \<or> u = Some [])"

definition requestHistoricFlagImage :: "state \<Rightarrow> state" where
  "requestHistoricFlagImage s =
     (if url_unset (historicFlagImageUrl s) \<and> pendingHistoricFlagRequest s HISTORIC_FLAG_ASSET_PATH = None
      then
        sendOrQueue (RequestLocalAsset HISTORIC_FLAG_ASSET_PATH)
          (log ''debug'' ''Requesting historic flag image from Python''
             (s\<lparr>pendingHistoricFlagRequest :=
                   (pendingHistoricFlagRequest s)(HISTORIC_FLAG_ASSET_PATH \<mapsto> True)\<rparr>))
      else s)"

text \<open>
  The branch of \<open>updateHistoricFlag\<close> for an element that was not found. The counter
  \<open>updateHistoricFlag._retryCount\<close> is \<open>undefined\<close> (\<open>None\<close>) until its first write.
\<close>

definition notFound :: "state \<Rightarrow> state" where
  "notFound s =
     (if \<not> isInChampSelect s then s
      else
        let s1 = log ''debug'' ''Rewards element not found, will retry'' s;
            s2 = (if retryCount s1 = None \<or> retryCount s1 = Some 0
                  then s1\<lparr>retryCount := Some 0\<rparr> else s1)
        in case retryCount s2 of
             Some k \<Rightarrow>
               if k < 5 then s2\<lparr>retryCount := Some (k + 1), timers := timers s2 @ [RetryTimer]\<rparr>
               else (log ''warn'' ''Rewards element not found after 5 retries, giving up'' s2)
                      \<lparr>retryCount := Some 0\<rparr>
           | None \<Rightarrow>
               (log ''warn'' ''Rewards element not found after 5 retries, giving up'' s2)
                 \<lparr>retryCount := Some 0\<rparr>)"

text \<open>The rest of \<open>updateHistoricFlag\<close>, for the element found.\<close>

definition found :: "nat \<Rightarrow> state \<Rightarrow> state" where
  "found element s =
     (let s1 = s\<lparr>retryCount := Some 0\<rparr>;
          s2 = (case currentRewardsElement s1 of
                  None \<Rightarrow> s1
                | Some c \<Rightarrow>
                    if c \<noteq> element
                    then hideFlagOnElement (Some c)
                           (log ''debug'' ''Selected skin changed - hiding flag on previous element'' s1)
                    else s1);
          s3 = s2\<lparr>currentRewardsElement := Some element\<rparr>;
          s4 = log ''debug'' ''Found rewards element'' s3
      in if historicModeActive s4 then
           (case historicFlagImageUrl s4 of
              None \<Rightarrow> requestHistoricFlagImage s4
            | Some u \<Rightarrow>
                if u = [] then requestHistoricFlagImage s4
                else log ''info'' ''Historic flag shown on rewards element''
                       (s4\<lparr>elems := (elems s4)(element := applyFlag u (elems s4 element))\<rparr>))
         else log ''info'' ''Historic flag hidden on rewards element''
                (hideFlagOnElement (Some element) s4))"

definition updateHistoricFlag :: "state \<Rightarrow> state" where
  "updateHistoricFlag s =
     (if \<not> isInChampSelect s then s
      else case findRewardsElement s of
             (None, s1) \<Rightarrow> notFound s1
           | (Some element, s1) \<Rightarrow> found element s1)"

text \<open>The callback of the retry timer (500 ms).\<close>

definition retryCallback :: "state \<Rightarrow> state" where
  "retryCallback s =
     (if isInChampSelect s then updateHistoricFlag s else s\<lparr>retryCount := Some 0\<rparr>)"

definition phase_member :: "string option \<Rightarrow> bool" where
  "phase_member phase = (phase = Some ''ChampSelect'' \<or> phase = Some ''FINALIZATION'')"

definition handlePhaseChange :: "string option \<Rightarrow> state \<Rightarrow> state" where
  "handlePhaseChange phase s =
     (let wasInChampSelect = isInChampSelect s;
          s1 = s\<lparr>isInChampSelect := phase_member phase\<rparr>
      in if isInChampSelect s1 \<and> \<not> wasInChampSelect then
           (let s2 = log ''debug'' ''Entered ChampSelect phase - enabling plugin'' s1
            in if historicModeActive s2 then s2\<lparr>timers := timers s2 @ [UpdateTimer 100]\<rparr> else s2)
         else if \<not> isInChampSelect s1 \<and> wasInChampSelect then
           (let s2 = log ''debug'' ''Left ChampSelect phase - disabling plugin'' s1;
                s3 = (case currentRewardsElement s2 of
                        None \<Rightarrow> s2
                      | Some c \<Rightarrow> (hideFlagOnElement (Some c) s2)\<lparr>currentRewardsElement := None\<rparr>)
            in case retryCount s3 of
                 None \<Rightarrow> s3
               | Some k \<Rightarrow> if k \<noteq> 0 then s3\<lparr>retryCount := Some 0\<rparr> else s3)
         else s1)"

definition handleLocalAssetUrl :: "string option \<Rightarrow> string option \<Rightarrow> state \<Rightarrow> state" where
  "handleLocalAssetUrl assetPath url s =
     (if assetPath = Some HISTORIC_FLAG_ASSET_PATH \<and> \<not> url_unset url then
        (let s1 = s\<lparr>historicFlagImageUrl := url,
                     pendingHistoricFlagRequest :=
                       (pendingHistoricFlagRequest s)(HISTORIC_FLAG_ASSET_PATH := None)\<rparr>;
             s2 = log ''info'' ''Received historic flag image URL from Python'' s1
         in if isInChampSelect s2 \<and> historicModeActive s2 then updateHistoricFlag s2 else s2)
      else s)"

definition handleHistoricStateUpdate :: "bool \<Rightarrow> string option \<Rightarrow> state \<Rightarrow> state" where
  "handleHistoricStateUpdate active historicSkinName s =
     (let s1 = handleHistoricSkinNameUpdate historicSkinName s;
          s2 = s1\<lparr>historicModeActive := active\<rparr>;
          s3 = log ''info'' ''Received historic state update'' s2;
          s4 = s3\<lparr>timers := timers s3 @ [UpdateTimer 100]\<rparr>
      in if historicModeActive s4 then s4\<lparr>timers := timers s4 @ [UpdateTimer 1000]\<rparr> else s4)"

fun handleBridgeMessage :: "payload \<Rightarrow> state \<Rightarrow> state" where
  "handleBridgeMessage (HistoricState active historicSkinName) s =
     handleHistoricStateUpdate active historicSkinName s"
| "handleBridgeMessage (LocalAssetUrl assetPath url) s = handleLocalAssetUrl assetPath url s"
| "handleBridgeMessage (PhaseChange phase) s = handlePhaseChange phase s"
| "handleBridgeMessage OtherType s = s"

definition mutationCallback :: "state \<Rightarrow> state" where
  "mutationCallback s =
     (if isInChampSelect s \<and> historicModeActive s then updateHistoricFlag s else s)"

section \<open>Initialisation and the event loop\<close>

definition initial_state :: "dtree list \<Rightarrow> (nat \<Rightarrow> element) \<Rightarrow> state" where
  "initial_state b es =
     \<lparr>bridgeSocket = None, bridgeReady = False, bridgeQueue = [], wire = [], console = [],
      historicModeActive = False, currentRewardsElement = None, historicFlagImageUrl = None,
      pendingHistoricFlagRequest = Map.empty, isInChampSelect = False, retryCount = None,
      timers = [], body = b, elems = es, popup = None, popupSeq = 0, wsThrows = False\<rparr>"

text \<open>
  \<open>init\<close>, after its \<open>await loadBridgePort()\<close>, which touches none of these variables.
\<close>

definition init :: "state \<Rightarrow> state" where
  "init s =
     log ''info'' ''LU-HistoricMode plugin initialized''
       (requestHistoricFlagImage
          (setupBridgeSocket
             ((log ''info'' ''Initializing LU-HistoricMode plugin'' s)\<lparr>historicModeActive := False\<rparr>)))"

fun timerCallback :: "timer \<Rightarrow> state \<Rightarrow> state" where
  "timerCallback (UpdateTimer delay) s = updateHistoricFlag s"
| "timerCallback RetryTimer s = retryCallback s"
| "timerCallback BridgeRetryTimer s = bridgeRetryCallback s"
| "timerCallback (PopupTimer p) s = popupExpire p s"

definition fire :: "nat \<Rightarrow> state \<Rightarrow> state" where
  "fire i s =
     (if i < length (timers s)
      then timerCallback (timers s ! i) (s\<lparr>timers := take i (timers s) @ drop (Suc i) (timers s)\<rparr>)
      else s)"

fun step :: "state \<Rightarrow> event \<Rightarrow> state" where
  "step s (Message p) = handleBridgeMessage p s"
| "step s BadMessage = log ''error'' ''Failed to parse bridge message'' s"
| "step s (Fire i) = fire i s"
| "step s Mutation = mutationCallback s"
| "step s SocketOpen =
     (if bridgeSocket s = Some CONNECTING then onopen (s\<lparr>bridgeSocket := Some OPEN\<rparr>) else s)"
| "step s SocketClosing =
     (if bridgeSocket s = Some CONNECTING \<or> bridgeSocket s = Some OPEN
      then s\<lparr>bridgeSocket := Some CLOSING\<rparr> else s)"
| "step s SocketError = (if bridgeSocket s = None then s else onerror s)"
| "step s SocketClose =
     (if bridgeSocket s = None then s else onclose (s\<lparr>bridgeSocket := Some CLOSED\<rparr>))"
| "step s PopupClose = s\<lparr>popup := None\<rparr>"
| "step s (EnvDom b es) = s\<lparr>body := b, elems := es\<rparr>"
| "step s (EnvCtor b) = s\<lparr>wsThrows := b\<rparr>"

definition run :: "state \<Rightarrow> event list \<Rightarrow> state" where
  "run s evs = foldl step s evs"


section \<open>Reference predicates and sample inputs\<close>

text \<open>
  The form \<open>hideFlagOnElement\<close> leaves an element in when no random flag is on it: hidden,
  and none of the thirteen presentation properties set.
\<close>

definition cleared_form :: "element \<Rightarrow> bool" where
  "cleared_form el =
     (style el ''display'' = Some (''none'', ''important'') \<and>
      style el ''visibility'' = Some (''hidden'', ''important'') \<and>
      style el ''opacity'' = Some (''0'', ''important'') \<and>
      list_all (\<lambda>p. style el p = None) shared_props)"

text \<open>A rewards icon as the client renders it: two classes, no inline style.\<close>

definition plain_icon :: element where
  "plain_icon = \<lparr>classList = [INFO_CLASS, REWARDS_CLASS], style = Map.empty\<rparr>"

text \<open>The same icon after the plugin has hidden it once.\<close>

definition hidden_icon :: element where
  "hidden_icon =
     \<lparr>classList = [INFO_CLASS, REWARDS_CLASS],
      style = [''display'' \<mapsto> (''none'', ''important''),
               ''visibility'' \<mapsto> (''hidden'', ''important''),
               ''opacity'' \<mapsto> (''0'', ''important'')]\<rparr>"

text \<open>An icon that carries both flags, with the historic image as its background.\<close>

definition both_flags_icon :: element where
  "both_flags_icon =
     \<lparr>classList = [INFO_CLASS, REWARDS_CLASS, HISTORIC_CLASS, RANDOM_CLASS],
      style = [''background-image'' \<mapsto> (css_url ''/asset/historic_flag.png'', ''important''),
               ''height'' \<mapsto> (''32px'', ''important'')]\<rparr>"

definition sample_url :: string where
  "sample_url = ''http://localhost:50000/img.png''"


subsection \<open>The resolver's algorithm as the specification words it\<close>

text \<open>
  The specification describes the resolver as four probing steps tried in a fixed
  order, the first success being adopted: the cached port, the default port, the sweep of
  the candidate range on the discovery path, the same sweep on the legacy path. A probe
  succeeds when the response is 2xx and its body reads as a positive number. A port found
  by any step but the first is persisted; a cached port whose request throws is discarded;
  when no step succeeds the port stays at its default.
\<close>

definition probe_value :: "fetch_env \<Rightarrow> string \<Rightarrow> int \<Rightarrow> int option" where
  "probe_value env path port =
     (case env path port of
        Throws \<Rightarrow> None
      | Response ok portText \<Rightarrow>
          (case js_parseInt (trim portText) of
             None \<Rightarrow> None
           | Some v \<Rightarrow> if ok \<and> 0 < v then Some v else None))"

definition cached_candidate :: "resolver \<Rightarrow> int option" where
  "cached_candidate r =
     (case storage r of
        None \<Rightarrow> None
      | Some c \<Rightarrow>
          (case js_parseInt c of
             None \<Rightarrow> None
           | Some port \<Rightarrow> if c \<noteq> [] \<and> 0 < port then Some port else None))"

datatype stage = Cached | Default | Discovery | Legacy

fun stage_probes :: "resolver \<Rightarrow> stage \<Rightarrow> (int \<times> string) list" where
  "stage_probes r Cached =
     (case cached_candidate r of None \<Rightarrow> [] | Some port \<Rightarrow> [(port, ''/bridge-port'')])"
| "stage_probes r Default = [(50000, ''/bridge-port'')]"
| "stage_probes r Discovery = map (\<lambda>port. (port, ''/bridge-port'')) sweep_ports"
| "stage_probes r Legacy = map (\<lambda>port. (port, ''/port'')) sweep_ports"

fun first_success :: "fetch_env \<Rightarrow> (int \<times> string) list \<Rightarrow> int option" where
  "first_success env [] = None"
| "first_success env ((port, path) # ps) =
     (case probe_value env path port of
        Some v \<Rightarrow> Some v
      | None \<Rightarrow> first_success env ps)"

fun resolve_plan :: "fetch_env \<Rightarrow> stage list \<Rightarrow> resolver \<Rightarrow> bool \<times> resolver" where
  "resolve_plan env [] r = (False, r)"
| "resolve_plan env (st # rest) r =
     (let ps = stage_probes r st;
          r1 = r\<lparr>fetches := fetches r @ ps\<rparr>
      in case first_success env ps of
           Some v \<Rightarrow>
             (True,
              if st = Cached then r1\<lparr>BRIDGE_PORT := v\<rparr>
              else r1\<lparr>BRIDGE_PORT := v, storage := Some (String_of_int v)\<rparr>)
         | None \<Rightarrow>
             resolve_plan env rest
               (if st = Cached \<and> list_ex (\<lambda>(port, path). env path port = Throws) ps
                then r1\<lparr>storage := None\<rparr> else r1))"

text \<open>
  Sample sessions. The store holds port 50002 from an earlier session. In the first
  network nothing answers but port 50003, which serves its own number on the discovery
  path; in the others nothing answers but the cached port 50002, which answers 404, or
  answers 200 with a body that is no number.
\<close>

definition cached_resolver :: resolver where
  "cached_resolver = \<lparr>BRIDGE_PORT = 50000, storage = Some ''50002'', fetches = []\<rparr>"

definition answer_50003 :: string where
  "answer_50003 = ''50003'' @ [CHR 0x0A]"

definition net_50003 :: fetch_env where
  "net_50003 path port =
     (if port = 50003 \<and> path = ''/bridge-port'' then Response True answer_50003 else Throws)"

definition net_silent :: fetch_env where
  "net_silent path port = Throws"

definition net_404 :: fetch_env where
  "net_404 path port = (if port = 50002 then Response False ''Not Found'' else Throws)"

definition net_garbled :: fetch_env where
  "net_garbled path port = (if port = 50002 then Response True ''<html></html>'' else Throws)"

subsection \<open>Observations on a state\<close>

text \<open>
  What the plugin has emitted is read off its outputs: the requests for the asset among
  the frames sent and queued, and the records of the logger on the console. The record
  \<open>Historic flag shown on rewards element\<close> is written by the apply step of
  \<open>updateHistoricFlag\<close> and nowhere else, \<open>Rewards element not found, will retry\<close> by
  every attempt that finds no element, and the warning by the attempt that gives up.
\<close>

definition is_request :: "message \<Rightarrow> bool" where
  "is_request m = (case m of RequestLocalAsset a \<Rightarrow> True | ChromaLog l t \<Rightarrow> False)"

definition requests_emitted :: "state \<Rightarrow> nat" where
  "requests_emitted s =
     length (filter is_request (wire s)) + length (filter is_request (bridgeQueue s))"

definition logged :: "string \<times> string \<Rightarrow> state \<Rightarrow> nat" where
  "logged r s = length (filter (\<lambda>x. x = r) (console s))"

definition shown_record :: "string \<times> string" where
  "shown_record = (''info'', ''Historic flag shown on rewards element'')"

definition retry_record :: "string \<times> string" where
  "retry_record = (''debug'', ''Rewards element not found, will retry'')"

definition giveup_record :: "string \<times> string" where
  "giveup_record = (''warn'', ''Rewards element not found after 5 retries, giving up'')"

definition connected_record :: message where
  "connected_record = ChromaLog ''info'' ''WebSocket bridge connected''"

text \<open>Records that only the apply step, a failed attempt, or the giving up write.\<close>

definition own_record :: "string \<times> string \<Rightarrow> bool" where
  "own_record r = (r = shown_record \<or> r = retry_record \<or> r = giveup_record)"

text \<open>
  The guard of \<open>requestHistoricFlagImage\<close> is closed: a request is marked pending, or the
  URL is known.
\<close>

definition asked :: "state \<Rightarrow> bool" where
  "asked s =
     (pendingHistoricFlagRequest s HISTORIC_FLAG_ASSET_PATH \<noteq> None \<or>
      \<not> url_unset (historicFlagImageUrl s))"

text \<open>The counter as the code reads it: \<open>undefined\<close> counts as 0.\<close>

definition retry_value :: "state \<Rightarrow> nat" where
  "retry_value s = (case retryCount s of None \<Rightarrow> 0 | Some k \<Rightarrow> k)"

text \<open>The element \<open>findRewardsElement\<close> answers in the target phase, for a page.\<close>

definition locate :: "dtree list \<Rightarrow> (nat \<Rightarrow> element) \<Rightarrow> nat option" where
  "locate b es = fst (findRewardsElement ((initial_state b es)\<lparr>isInChampSelect := True\<rparr>))"

text \<open>The phases of the \<open>phase-change\<close> messages of a run, in order of arrival.\<close>

fun phases :: "event list \<Rightarrow> string option list" where
  "phases [] = []"
| "phases (Message (PhaseChange p) # evs) = p # phases evs"
| "phases (e # evs) = phases evs"

text \<open>
  An event resolves the asset when it is a \<open>local-asset-url\<close> message for the tracked
  path with a \<open>url\<close> that is neither missing nor empty.
\<close>

fun resolves :: "event \<Rightarrow> bool" where
  "resolves (Message (LocalAssetUrl p u)) = (p = Some HISTORIC_FLAG_ASSET_PATH \<and> \<not> url_unset u)"
| "resolves e = False"

text \<open>While the flag \<open>bridgeReady\<close> is set, the socket is open or closing.\<close>

definition conn_inv :: "state \<Rightarrow> bool" where
  "conn_inv s =
     (if bridgeReady s then bridgeSocket s = Some OPEN \<or> bridgeSocket s = Some CLOSING else True)"

text \<open>
  All the frames handed to the bridge so far, the transmitted ones first; the queue is
  empty whenever frames are sent directly; and a later state has only added frames at the
  end.
\<close>

definition outbound :: "state \<Rightarrow> message list" where
  "outbound s = wire s @ bridgeQueue s"

definition flushed_when_open :: "state \<Rightarrow> bool" where
  "flushed_when_open s =
     (if bridgeReady s \<and> bridgeSocket s = Some OPEN then bridgeQueue s = [] else True)"

definition extends_outbound :: "state \<Rightarrow> state \<Rightarrow> bool" where
  "extends_outbound s t = (flushed_when_open t \<and> (\<exists>ms. outbound t = outbound s @ ms))"

text \<open>A run of sends, each through the branch that \<open>log\<close> takes.\<close>

definition sends :: "message list \<Rightarrow> state \<Rightarrow> state" where
  "sends ms s = foldl (\<lambda>t m. sendOrQueue m t) s ms"

text \<open>The event is a change of the page by the page itself, not a callback of the plugin.\<close>

fun page_change :: "event \<Rightarrow> bool" where
  "page_change (EnvDom b es) = True"
| "page_change e = False"

text \<open>Every element of the second store is that of the first, as it was or cleared.\<close>

definition kept_or_cleared :: "(nat \<Rightarrow> element) \<Rightarrow> (nat \<Rightarrow> element) \<Rightarrow> bool" where
  "kept_or_cleared es es' = (\<forall>i. es' i = es i \<or> es' i = hideFlag (es i))"

text \<open>
  The plugin waits for the URL on a page: in the target phase, historic mode active, one
  request emitted and marked pending, nothing applied yet, and the element remembered, if
  any, is the one the page shows.
\<close>

definition awaiting_url :: "dtree list \<Rightarrow> (nat \<Rightarrow> element) \<Rightarrow> nat \<Rightarrow> state \<Rightarrow> bool" where
  "awaiting_url b es el s =
     (isInChampSelect s \<and> historicModeActive s \<and> body s = b \<and> elems s = es \<and>
      locate b es = Some el \<and> historicFlagImageUrl s = None \<and>
      pendingHistoricFlagRequest s HISTORIC_FLAG_ASSET_PATH \<noteq> None \<and>
      requests_emitted s = 1 \<and> logged shown_record s = 0 \<and>
      (currentRewardsElement s = None \<or> currentRewardsElement s = Some el))"

subsection \<open>Sample pages\<close>

text \<open>
  A page whose selected carousel item holds the rewards icon, as node 1 under node 0, and
  a page with no such icon. \<open>fresh\<close> is the plugin right after \<open>init\<close> on the first,
  \<open>fresh_bare\<close> on the second.
\<close>

definition selected_item :: element where
  "selected_item =
     \<lparr>classList = [''skin-selection-item'', ''skin-selection-item-selected''], style = Map.empty\<rparr>"

definition sample_body :: "dtree list" where
  "sample_body = [DNode 0 [DNode 1 []]]"

definition sample_elems :: "nat \<Rightarrow> element" where
  "sample_elems i = (if i = 1 then plain_icon else selected_item)"

definition bare_elems :: "nat \<Rightarrow> element" where
  "bare_elems i = selected_item"

definition fresh :: state where
  "fresh = init (initial_state sample_body sample_elems)"

definition fresh_bare :: state where
  "fresh_bare = init (initial_state sample_body bare_elems)"

text \<open>
  A stretch of a session in which no message resolves the asset: three
  \<open>local-asset-url\<close> messages that do not count (another path, no \<open>url\<close>, an empty
  \<open>url\<close>), then the client enters champion select, historic mode is switched on, both
  synchronization timers fire and the socket opens.
\<close>

definition quiet_run :: "event list" where
  "quiet_run =
     [Message (LocalAssetUrl (Some ''other.png'') (Some sample_url)),
      Message (LocalAssetUrl (Some HISTORIC_FLAG_ASSET_PATH) None),
      Message (LocalAssetUrl (Some HISTORIC_FLAG_ASSET_PATH) (Some [])),
      Message (PhaseChange (Some ''ChampSelect'')),
      Message (HistoricState True None),
      Fire 0, Fire 0, SocketOpen]"

text \<open>
  The scenario of the specification: the client enters champion select, historic mode is
  switched on, both synchronization timers fire; then the URL arrives; or the client
  leaves the phase.
\<close>

definition waiting_run :: "event list" where
  "waiting_run =
     [Message (PhaseChange (Some ''ChampSelect'')), Message (HistoricState True None),
      Fire 0, Fire 0]"

definition arrival :: event where
  "arrival = Message (LocalAssetUrl (Some HISTORIC_FLAG_ASSET_PATH) (Some sample_url))"



text \<open>The properties the apply step writes, in the order of the source.\<close>

definition applied_props :: "string list" where
  "applied_props = visibility_props @ shared_props"

definition leave :: event where
  "leave = Message (PhaseChange (Some ''InProgress''))"

text \<open>The plugin right after the client has entered champion select, on either page.\<close>

definition enter :: event where
  "enter = Message (PhaseChange (Some ''ChampSelect''))"

definition entered :: state where
  "entered = step fresh enter"

definition entered_bare :: state where
  "entered_bare = step fresh_bare enter"

text \<open>
  For the label: the event is a \<open>historic-state\<close> message; and a message that names a
  skin.
\<close>

fun is_historic_state :: "event \<Rightarrow> bool" where
  "is_historic_state (Message (HistoricState a n)) = True"
| "is_historic_state e = False"

definition named :: event where
  "named = Message (HistoricState True (Some ''Dark Star''))"

section \<open>Properties of the decoration applier\<close>

lemma removeProperty_fields [simp]:
  "classList (removeProperty q el) = classList el"
  "style (removeProperty q el) p = (if p = q then None else style el p)"
  by (simp_all add: removeProperty_def)

lemma setProperty_fields [simp]:
  "classList (setProperty q v pr el) = classList el"
  "style (setProperty q v pr el) p =
     (if p = q
      then (if v = [] then None
            else if (pr = [] \<or> pr = ''important'') \<and> css_parses q v then Some (v, pr)
            else style el p)
      else style el p)"
  by (simp_all add: setProperty_def)

lemma url_body_css_url [simp]: "url_body (css_url u) = Some u"
  by (simp add: url_body_def css_url_def)

lemma css_url_nonempty [simp]: "css_url u \<noteq> []"
  by (simp add: css_url_def)

lemma css_parses_url [simp]: "css_parses ''background-image'' (css_url u) = css_plain u"
  by (simp add: css_parses_def)

lemma css_parses_written [simp]:
  "css_parses ''display'' ''block''"
  "css_parses ''display'' ''none''"
  "css_parses ''visibility'' ''visible''"
  "css_parses ''visibility'' ''hidden''"
  "css_parses ''opacity'' ''1''"
  "css_parses ''opacity'' ''0''"
  "css_parses ''background-repeat'' ''no-repeat''"
  "css_parses ''background-size'' ''contain''"
  "css_parses ''height'' ''32px''"
  "css_parses ''width'' ''32px''"
  "css_parses ''position'' ''absolute''"
  "css_parses ''right'' ''-14px''"
  "css_parses ''top'' ''-14px''"
  "css_parses ''pointer-events'' ''none''"
  "css_parses ''cursor'' ''default''"
  "css_parses ''-webkit-user-select'' ''none''"
  "css_parses ''list-style-type'' ''none''"
  "\<not> css_parses ''content'' '' ''"
  by (simp_all add: css_parses_def css_fixed_def)

lemma classList_add_fields [simp]:
  "set (classList (classList_add c el)) = insert c (set (classList el))"
  "style (classList_add c el) = style el"
  by (auto simp: classList_add_def)

lemma classList_remove_fields [simp]:
  "classList (classList_remove c el) = removeAll c (classList el)"
  "style (classList_remove c el) = style el"
  by (simp_all add: classList_remove_def)

lemma random_neq_historic [simp]: "RANDOM_CLASS \<noteq> HISTORIC_CLASS"
  by (simp add: RANDOM_CLASS_def HISTORIC_CLASS_def)

lemma hideFlag_classes:
  "classList (hideFlag el) = removeAll HISTORIC_CLASS (classList el)"
  by (simp add: hideFlag_def Let_def)

lemma applyFlag_classes:
  "set (classList (applyFlag url el)) = insert HISTORIC_CLASS (set (classList el))"
  by (simp add: applyFlag_def)

lemma applyFlag_random [simp]:
  "classList_contains RANDOM_CLASS (applyFlag url el) = classList_contains RANDOM_CLASS el"
  by (simp add: classList_contains_def applyFlag_classes)

lemma hideFlag_style_other:
  "\<not> classList_contains RANDOM_CLASS el \<Longrightarrow> p \<notin> set visibility_props \<union> set shared_props \<Longrightarrow>
   style (hideFlag el) p = style el p"
  by (simp add: hideFlag_def Let_def classList_contains_def shared_props_def visibility_props_def)

lemma hideFlag_style_shared:
  "\<not> classList_contains RANDOM_CLASS el \<Longrightarrow> p \<in> set shared_props \<Longrightarrow> style (hideFlag el) p = None"
  by (auto simp: hideFlag_def Let_def classList_contains_def shared_props_def)

lemma hideFlag_style_visibility:
  "\<not> classList_contains RANDOM_CLASS el \<Longrightarrow> style (hideFlag el) ''display'' = Some (''none'', ''important'')"
  "\<not> classList_contains RANDOM_CLASS el \<Longrightarrow> style (hideFlag el) ''visibility'' = Some (''hidden'', ''important'')"
  "\<not> classList_contains RANDOM_CLASS el \<Longrightarrow> style (hideFlag el) ''opacity'' = Some (''0'', ''important'')"
  by (simp_all add: hideFlag_def Let_def classList_contains_def)

lemma applyFlag_style_other:
  "p \<notin> set visibility_props \<union> set shared_props \<Longrightarrow> style (applyFlag url el) p = style el p"
  by (simp add: applyFlag_def shared_props_def visibility_props_def)


text \<open>
  The apply step passes one space for \<open>content\<close>, which is no value of the property:
  the element's \<open>content\<close> stays what it was.
\<close>

lemma applyFlag_style_content:
  "style (applyFlag url el) ''content'' = style el ''content''"
  by (simp add: applyFlag_def)


lemma hide_apply_style:
  assumes nr: "\<not> classList_contains RANDOM_CLASS el"
  shows "style (hideFlag (applyFlag url el)) = style (hideFlag el)"
proof (rule ext)
  fix p
  have nr': "\<not> classList_contains RANDOM_CLASS (applyFlag url el)"
    using nr by simp
  consider (shared) "p \<in> set shared_props"
    | (vis) "p \<in> set visibility_props"
    | (other) "p \<notin> set visibility_props \<union> set shared_props"
    by blast
  then show "style (hideFlag (applyFlag url el)) p = style (hideFlag el) p"
  proof cases
    case shared
    then show ?thesis
      by (simp add: hideFlag_style_shared [OF nr] hideFlag_style_shared [OF nr'])
  next
    case vis
    then show ?thesis
      by (auto simp: visibility_props_def hideFlag_style_visibility [OF nr]
            hideFlag_style_visibility [OF nr'])
  next
    case other
    then show ?thesis
      by (simp add: hideFlag_style_other [OF nr] hideFlag_style_other [OF nr']
            applyFlag_style_other)
  qed
qed

lemma hideFlag_style_fixpoint:
  assumes nr: "\<not> classList_contains RANDOM_CLASS el"
  shows "(style (hideFlag el) = style el) = cleared_form el"
proof
  assume eq: "style (hideFlag el) = style el"
  have "style el p = None" if "p \<in> set shared_props" for p
    using hideFlag_style_shared [OF nr that] eq by simp
  then have "list_all (\<lambda>p. style el p = None) shared_props"
    by (simp add: list_all_iff)
  then show "cleared_form el"
    using hideFlag_style_visibility [OF nr] eq by (simp add: cleared_form_def)
next
  assume cf: "cleared_form el"
  show "style (hideFlag el) = style el"
  proof (rule ext)
    fix p
    consider (shared) "p \<in> set shared_props"
      | (vis) "p \<in> set visibility_props"
      | (other) "p \<notin> set visibility_props \<union> set shared_props"
      by blast
    then show "style (hideFlag el) p = style el p"
    proof cases
      case shared
      then have "style el p = None"
        using cf by (simp add: cleared_form_def list_all_iff)
      then show ?thesis
        by (simp add: hideFlag_style_shared [OF nr shared])
    next
      case vis
      then show ?thesis
        using cf
        by (auto simp: visibility_props_def cleared_form_def hideFlag_style_visibility [OF nr])
    next
      case other
      then show ?thesis
        by (simp add: hideFlag_style_other [OF nr])
    qed
  qed
qed

text \<open>
  Claim C3, as the code has it. For an element without the random-flag class, clearing
  after applying gives the style that clearing alone gives: the thirteen presentation
  properties are absent and \<open>display\<close>, \<open>visibility\<close> and \<open>opacity\<close> are forced to
  \<open>none\<close>, \<open>hidden\<close> and \<open>0\<close>, whatever they were before; every other property keeps
  its value from before the apply. So the style from before the apply comes back exactly
  when the element was in the cleared form already.
\<close>

theorem clear_after_apply_amended:
  "\<not> classList_contains RANDOM_CLASS el \<Longrightarrow>
     style (hideFlag (applyFlag url el)) = style (hideFlag el) \<and>
     (\<forall>p. p \<notin> set visibility_props \<union> set shared_props \<longrightarrow>
          style (hideFlag (applyFlag url el)) p = style el p) \<and>
     (style (hideFlag (applyFlag url el)) = style el) = cleared_form el"
  by (simp add: hide_apply_style hideFlag_style_fixpoint hideFlag_style_other)

lemma plain_icon_no_random: "\<not> classList_contains RANDOM_CLASS plain_icon"
  by (simp add: classList_contains_def plain_icon_def RANDOM_CLASS_def INFO_CLASS_def
        REWARDS_CLASS_def)

text \<open>
  The claim as written fails on an icon with no inline style: after apply and clear its
  \<open>display\<close> is \<open>none !important\<close>, which it was not before.
\<close>

theorem clear_after_apply_counterexample:
  "\<not> classList_contains RANDOM_CLASS plain_icon \<and>
   style (hideFlag (applyFlag sample_url plain_icon)) ''display'' = Some (''none'', ''important'') \<and>
   style plain_icon ''display'' = None \<and>
   style (hideFlag (applyFlag sample_url plain_icon)) \<noteq> style plain_icon"
proof -
  have nr: "\<not> classList_contains RANDOM_CLASS (applyFlag sample_url plain_icon)"
    using plain_icon_no_random by simp
  have a: "style (hideFlag (applyFlag sample_url plain_icon)) ''display'' = Some (''none'', ''important'')"
    by (rule hideFlag_style_visibility(1) [OF nr])
  have b: "style plain_icon ''display'' = None"
    by (simp add: plain_icon_def)
  from a b have "style (hideFlag (applyFlag sample_url plain_icon)) \<noteq> style plain_icon"
    by (metis option.distinct(1))
  with a b plain_icon_no_random show ?thesis by blast
qed

lemma hidden_icon_no_random: "\<not> classList_contains RANDOM_CLASS hidden_icon"
  by (simp add: classList_contains_def hidden_icon_def RANDOM_CLASS_def INFO_CLASS_def
        REWARDS_CLASS_def)

lemma hidden_icon_cleared: "cleared_form hidden_icon"
  by (simp add: cleared_form_def hidden_icon_def shared_props_def)

theorem clear_after_apply_witness:
  "\<not> classList_contains RANDOM_CLASS hidden_icon \<and> cleared_form hidden_icon \<and>
   style (hideFlag (applyFlag sample_url hidden_icon)) = style hidden_icon \<and>
   ''color'' \<notin> set visibility_props \<union> set shared_props \<and>
   style (hideFlag (applyFlag sample_url hidden_icon)) ''color'' = style hidden_icon ''color''"
proof -
  note th = clear_after_apply_amended [OF hidden_icon_no_random, of sample_url]
  have a: "style (hideFlag (applyFlag sample_url hidden_icon)) = style hidden_icon"
    using th hidden_icon_cleared by blast
  have c: "''color'' \<notin> set visibility_props \<union> set shared_props"
    by (simp add: visibility_props_def shared_props_def)
  have b: "style (hideFlag (applyFlag sample_url hidden_icon)) ''color'' = style hidden_icon ''color''"
    using th c by blast
  show ?thesis
    using a b c hidden_icon_no_random hidden_icon_cleared by blast
qed

lemma hideFlag_style_random:
  "classList_contains RANDOM_CLASS el \<Longrightarrow>
   style (hideFlag el) p =
     (if p = ''background-image'' \<and> getPropertyValue ''background-image'' el \<noteq> [] \<and>
         includes_str (getPropertyValue ''background-image'' el) HISTORIC_FLAG_ASSET_PATH
      then None else style el p)"
  by (simp add: hideFlag_def Let_def classList_contains_def getPropertyValue_def)

text \<open>
  Claim C4. On an element that carries the random-flag class, clearing removes the
  historic class from the class list and leaves every style property but
  \<open>background-image\<close> as it is; \<open>background-image\<close> is removed exactly when its text is
  not empty and includes the asset's file name.
\<close>

theorem clear_with_random_flag:
  "classList_contains RANDOM_CLASS el \<Longrightarrow>
     classList (hideFlag el) = removeAll HISTORIC_CLASS (classList el) \<and>
     (\<forall>p. p \<noteq> ''background-image'' \<longrightarrow> style (hideFlag el) p = style el p) \<and>
     style (hideFlag el) ''background-image'' =
       (if getPropertyValue ''background-image'' el \<noteq> [] \<and>
           includes_str (getPropertyValue ''background-image'' el) HISTORIC_FLAG_ASSET_PATH
        then None else style el ''background-image'')"
  by (simp add: hideFlag_classes hideFlag_style_random)

lemma both_flags_icon_random: "classList_contains RANDOM_CLASS both_flags_icon"
  by (simp add: classList_contains_def both_flags_icon_def)

lemma both_flags_icon_bg:
  "getPropertyValue ''background-image'' both_flags_icon = css_url ''/asset/historic_flag.png''"
  by (simp add: getPropertyValue_def both_flags_icon_def)

lemma both_flags_icon_includes:
  "includes_str (css_url ''/asset/historic_flag.png'') HISTORIC_FLAG_ASSET_PATH"
  by (simp add: css_url_def HISTORIC_FLAG_ASSET_PATH_def)

theorem clear_with_random_flag_witness:
  "classList_contains RANDOM_CLASS both_flags_icon \<and>
   classList (hideFlag both_flags_icon) = [INFO_CLASS, REWARDS_CLASS, RANDOM_CLASS] \<and>
   ''height'' \<noteq> ''background-image'' \<and>
   style (hideFlag both_flags_icon) ''height'' = Some (''32px'', ''important'') \<and>
   style both_flags_icon ''background-image'' \<noteq> None \<and>
   style (hideFlag both_flags_icon) ''background-image'' = None"
proof -
  note th = clear_with_random_flag [OF both_flags_icon_random]
  have cl: "classList (hideFlag both_flags_icon) = [INFO_CLASS, REWARDS_CLASS, RANDOM_CLASS]"
    using th by (simp add: both_flags_icon_def INFO_CLASS_def REWARDS_CLASS_def
        HISTORIC_CLASS_def RANDOM_CLASS_def)
  have h: "style (hideFlag both_flags_icon) ''height'' = Some (''32px'', ''important'')"
    using th by (simp add: both_flags_icon_def)
  have bg: "style (hideFlag both_flags_icon) ''background-image'' = None"
    using th by (simp add: both_flags_icon_bg both_flags_icon_includes css_url_nonempty)
  have pre: "style both_flags_icon ''background-image'' \<noteq> None"
    by (simp add: both_flags_icon_def)
  show ?thesis using cl h bg pre both_flags_icon_random by simp
qed

section \<open>Properties of the port resolver\<close>

declare digits_of_nat.simps [simp del]

lemma sweep_promise_probe:
  "sweep_promise env path port = map_option (\<lambda>v. (v, port)) (probe_value env path port)"
  by (simp add: sweep_promise_def probe_value_def split: probe_result.splits option.splits)

lemma find_sweep:
  "(case List.find (\<lambda>res. res \<noteq> None) (map (sweep_promise env path) ports) of
      Some (Some (v, src)) \<Rightarrow> Some v | _ \<Rightarrow> None)
   = first_success env (map (\<lambda>port. (port, path)) ports)"
  by (induction ports) (auto simp: sweep_promise_probe split: option.splits)

lemma sweep_first_success:
  "sweep env path r =
     (case first_success env (map (\<lambda>port. (port, path)) sweep_ports) of
        Some v \<Rightarrow>
          (Some v, r\<lparr>fetches := fetches r @ map (\<lambda>port. (port, path)) sweep_ports,
                      BRIDGE_PORT := v, storage := Some (String_of_int v)\<rparr>)
      | None \<Rightarrow> (None, r\<lparr>fetches := fetches r @ map (\<lambda>port. (port, path)) sweep_ports\<rparr>))"
  unfolding find_sweep [symmetric] sweep_def Let_def
  by (simp split: option.splits prod.splits)

lemma try_default_first_success:
  "try_default env r =
     (case first_success env [(50000, ''/bridge-port'')] of
        Some v \<Rightarrow>
          (Some v, r\<lparr>fetches := fetches r @ [(50000, ''/bridge-port'')],
                      BRIDGE_PORT := v, storage := Some (String_of_int v)\<rparr>)
      | None \<Rightarrow> (None, r\<lparr>fetches := fetches r @ [(50000, ''/bridge-port'')]\<rparr>))"
  by (simp add: try_default_def issue_def probe_value_def Let_def
      split: probe_result.splits option.splits)

lemma try_cached_first_success:
  "try_cached env r =
     (let ps = stage_probes r Cached
      in case first_success env ps of
           Some v \<Rightarrow> (Some v, r\<lparr>fetches := fetches r @ ps, BRIDGE_PORT := v\<rparr>)
         | None \<Rightarrow>
             (None,
              if list_ex (\<lambda>(port, path). env path port = Throws) ps
              then r\<lparr>fetches := fetches r @ ps, storage := None\<rparr>
              else r\<lparr>fetches := fetches r @ ps\<rparr>))"
  by (simp add: try_cached_def cached_candidate_def issue_def probe_value_def Let_def
      split: probe_result.splits option.splits)

lemma loadBridgePort_plan:
  "loadBridgePort env r = resolve_plan env [Cached, Default, Discovery, Legacy] r"
  by (simp add: loadBridgePort_def try_cached_first_success try_default_first_success
      sweep_first_success Let_def split: option.splits)

lemma first_success_append:
  "first_success env (a @ b) =
     (case first_success env a of Some v \<Rightarrow> Some v | None \<Rightarrow> first_success env b)"
  by (induction a) (auto split: option.splits)

lemma resolve_plan_trace:
  "\<exists>ps. fetches (snd (resolve_plan env sts r)) = fetches r @ ps \<and>
        (if fst (resolve_plan env sts r)
         then first_success env ps = Some (BRIDGE_PORT (snd (resolve_plan env sts r)))
         else first_success env ps = None \<and>
              BRIDGE_PORT (snd (resolve_plan env sts r)) = BRIDGE_PORT r)"
proof (induction sts arbitrary: r)
  case Nil
  show ?case by simp
next
  case (Cons st rest)
  let ?ps = "stage_probes r st"
  show ?case
  proof (cases "first_success env ?ps")
    case (Some v)
    then show ?thesis
      by (auto simp: Let_def intro!: exI [of _ ?ps])
  next
    case None
    let ?r1 = "if st = Cached \<and> list_ex (\<lambda>(port, path). env path port = Throws) ?ps
               then r\<lparr>fetches := fetches r @ ?ps, storage := None\<rparr>
               else r\<lparr>fetches := fetches r @ ?ps\<rparr>"
    have eq: "resolve_plan env (st # rest) r = resolve_plan env rest ?r1"
      using None by (simp add: Let_def)
    have f1: "fetches ?r1 = fetches r @ ?ps" and b1: "BRIDGE_PORT ?r1 = BRIDGE_PORT r"
      by simp_all
    from Cons.IH [of ?r1] obtain qs where
      q: "fetches (snd (resolve_plan env rest ?r1)) = fetches ?r1 @ qs"
        "if fst (resolve_plan env rest ?r1)
         then first_success env qs = Some (BRIDGE_PORT (snd (resolve_plan env rest ?r1)))
         else first_success env qs = None \<and>
              BRIDGE_PORT (snd (resolve_plan env rest ?r1)) = BRIDGE_PORT ?r1"
      by blast
    show ?thesis
      unfolding eq
      apply (rule exI [of _ "?ps @ qs"])
      using q None f1 b1
      by (auto simp: first_success_append split: if_splits)
  qed
qed

lemma resolve_plan_issued:
  "first_success env (drop (length (fetches r)) (fetches (snd (resolve_plan env sts r)))) =
     (if fst (resolve_plan env sts r) then Some (BRIDGE_PORT (snd (resolve_plan env sts r)))
      else None)"
  using resolve_plan_trace [of env sts r] by (auto split: if_splits)

lemma resolve_plan_fallback:
  "\<not> fst (resolve_plan env sts r) \<Longrightarrow> BRIDGE_PORT (snd (resolve_plan env sts r)) = BRIDGE_PORT r"
  using resolve_plan_trace [of env sts r] by (auto split: if_splits)

lemma cached_throws_plan:
  assumes "cached_candidate r = Some p" "env ''/bridge-port'' p = Throws"
  shows "resolve_plan env (Cached # rest) r =
         resolve_plan env rest (r\<lparr>fetches := fetches r @ [(p, ''/bridge-port'')], storage := None\<rparr>)"
  using assms by (simp add: Let_def probe_value_def)

text \<open>
  Claim C6. \<open>loadBridgePort\<close> is the plan of the specification: the cached port, the
  default port, the sweep on the discovery path, the sweep on the legacy path, in this
  order, stopping at the first step that succeeds. Of all the requests it issued, in the
  order of issue, the port it adopts is the answer of the first that succeeded, and it
  returns \<open>false\<close> exactly when none did; the port then stays what it was, the default.
  When the request to the cached port throws, as at a timeout, the stored port is
  discarded and the resolver goes on with the default port and then the sweeps.
\<close>

theorem resolver_order:
  "loadBridgePort env r = resolve_plan env [Cached, Default, Discovery, Legacy] r \<and>
   first_success env (drop (length (fetches r)) (fetches (snd (loadBridgePort env r)))) =
     (if fst (loadBridgePort env r) then Some (BRIDGE_PORT (snd (loadBridgePort env r))) else None) \<and>
   (\<not> fst (loadBridgePort env r) \<longrightarrow> BRIDGE_PORT (snd (loadBridgePort env r)) = BRIDGE_PORT r) \<and>
   (cached_candidate r = Some p \<and> env ''/bridge-port'' p = Throws \<longrightarrow>
      loadBridgePort env r =
        resolve_plan env [Default, Discovery, Legacy]
          (r\<lparr>fetches := fetches r @ [(p, ''/bridge-port'')], storage := None\<rparr>))"
  unfolding loadBridgePort_plan
  using resolve_plan_issued [of env r] resolve_plan_fallback [of env _ r] cached_throws_plan [of r p env]
  by blast

lemma sweep_ports_list:
  "sweep_ports = [50001, 50002, 50003, 50004, 50005, 50006, 50007, 50008, 50009, 50010]"
  by (simp add: sweep_ports_def DISCOVERY_START_PORT_def DISCOVERY_END_PORT_def upto_rec1)

lemma parse_50002: "js_parseInt ''50002'' = Some 50002"
  by (simp add: js_parseInt_def Let_def is_ws_def digit_of_def)

lemma parse_50003: "js_parseInt (trim answer_50003) = Some 50003"
  by (simp add: answer_50003_def js_parseInt_def trim_def Let_def is_ws_def digit_of_def)

lemma string_50003: "String_of_int 50003 = ''50003''"
  by (simp add: String_of_int_def digits_of_nat.simps)

lemma cached_resolver_candidate: "cached_candidate cached_resolver = Some 50002"
  by (simp add: cached_candidate_def cached_resolver_def parse_50002)

lemma net_50003_probe:
  "probe_value net_50003 ''/bridge-port'' port = (if port = 50003 then Some 50003 else None)"
  by (simp add: probe_value_def net_50003_def parse_50003)

lemma net_50003_sweep:
  "first_success net_50003 (map (\<lambda>port. (port, ''/bridge-port'')) sweep_ports) = Some 50003"
  by (simp add: sweep_ports_list net_50003_probe)

lemma net_50003_resolved:
  "loadBridgePort net_50003 cached_resolver =
     (True, \<lparr>BRIDGE_PORT = 50003, storage = Some ''50003'',
             fetches = (50002, ''/bridge-port'') # (50000, ''/bridge-port'') #
                       map (\<lambda>port. (port, ''/bridge-port'')) sweep_ports\<rparr>)"
  unfolding loadBridgePort_plan
  by (simp add: Let_def cached_resolver_candidate net_50003_probe net_50003_sweep string_50003)
    (simp add: cached_resolver_def)

lemma net_silent_probe: "probe_value net_silent path port = None"
  by (simp add: probe_value_def net_silent_def)

lemma net_silent_first: "first_success net_silent ps = None"
  by (induction ps) (auto simp: net_silent_probe)

lemma net_silent_resolved:
  "loadBridgePort net_silent cached_resolver =
     (False, \<lparr>BRIDGE_PORT = 50000, storage = None,
              fetches = (50002, ''/bridge-port'') # (50000, ''/bridge-port'') #
                        map (\<lambda>port. (port, ''/bridge-port'')) sweep_ports @
                        map (\<lambda>port. (port, ''/port'')) sweep_ports\<rparr>)"
  unfolding loadBridgePort_plan
  by (simp add: Let_def cached_resolver_candidate net_silent_first)
    (simp add: cached_resolver_def net_silent_def)

theorem resolver_order_witness:
  "cached_candidate cached_resolver = Some 50002 \<and>
   net_50003 ''/bridge-port'' 50002 = Throws \<and>
   loadBridgePort net_50003 cached_resolver =
     resolve_plan net_50003 [Default, Discovery, Legacy]
       (cached_resolver\<lparr>fetches := fetches cached_resolver @ [(50002, ''/bridge-port'')],
                        storage := None\<rparr>) \<and>
   fst (loadBridgePort net_50003 cached_resolver) \<and>
   BRIDGE_PORT (snd (loadBridgePort net_50003 cached_resolver)) = 50003 \<and>
   storage (snd (loadBridgePort net_50003 cached_resolver)) = Some ''50003'' \<and>
   fetches (snd (loadBridgePort net_50003 cached_resolver)) =
     [(50002, ''/bridge-port''), (50000, ''/bridge-port''), (50001, ''/bridge-port''),
      (50002, ''/bridge-port''), (50003, ''/bridge-port''), (50004, ''/bridge-port''),
      (50005, ''/bridge-port''), (50006, ''/bridge-port''), (50007, ''/bridge-port''),
      (50008, ''/bridge-port''), (50009, ''/bridge-port''), (50010, ''/bridge-port'')] \<and>
   \<not> fst (loadBridgePort net_silent cached_resolver) \<and>
   BRIDGE_PORT (snd (loadBridgePort net_silent cached_resolver)) = BRIDGE_PORT cached_resolver \<and>
   BRIDGE_PORT cached_resolver = 50000"
proof -
  have t: "net_50003 ''/bridge-port'' 50002 = Throws"
    by (simp add: net_50003_def)
  have a: "loadBridgePort net_50003 cached_resolver =
     resolve_plan net_50003 [Default, Discovery, Legacy]
       (cached_resolver\<lparr>fetches := fetches cached_resolver @ [(50002, ''/bridge-port'')],
                        storage := None\<rparr>)"
    using resolver_order [of net_50003 cached_resolver 50002] cached_resolver_candidate t
    by blast
  have nf: "\<not> fst (loadBridgePort net_silent cached_resolver)"
    by (simp add: net_silent_resolved)
  have b: "BRIDGE_PORT (snd (loadBridgePort net_silent cached_resolver)) = BRIDGE_PORT cached_resolver"
    using resolver_order [of net_silent cached_resolver 50002] nf by blast
  have c: "BRIDGE_PORT cached_resolver = 50000"
    by (simp add: cached_resolver_def)
  have v: "fst (loadBridgePort net_50003 cached_resolver)"
    "BRIDGE_PORT (snd (loadBridgePort net_50003 cached_resolver)) = 50003"
    "storage (snd (loadBridgePort net_50003 cached_resolver)) = Some ''50003''"
    "fetches (snd (loadBridgePort net_50003 cached_resolver)) =
     [(50002, ''/bridge-port''), (50000, ''/bridge-port''), (50001, ''/bridge-port''),
      (50002, ''/bridge-port''), (50003, ''/bridge-port''), (50004, ''/bridge-port''),
      (50005, ''/bridge-port''), (50006, ''/bridge-port''), (50007, ''/bridge-port''),
      (50008, ''/bridge-port''), (50009, ''/bridge-port''), (50010, ''/bridge-port'')]"
    by (simp_all add: net_50003_resolved sweep_ports_list)
  show ?thesis
    using a b c t nf v cached_resolver_candidate by blast
qed

lemma net_404_probe: "probe_value net_404 path port = None"
  by (simp add: probe_value_def net_404_def split: option.splits)

lemma net_404_first: "first_success net_404 ps = None"
  by (induction ps) (auto simp: net_404_probe)

lemma net_garbled_probe: "probe_value net_garbled path port = None"
  by (simp add: probe_value_def net_garbled_def js_parseInt_def trim_def Let_def is_ws_def
      digit_of_def)

lemma net_garbled_first: "first_success net_garbled ps = None"
  by (induction ps) (auto simp: net_garbled_probe)

text \<open>
  Claim C7, at three sessions that differ only in how the probe of the cached port 50002
  fails. All three end without a port (\<open>false\<close> is returned). When the request throws,
  the stored port is removed; when the answer is a 404, or a 200 whose body is no number,
  the stored port is still there after the resolver has returned: only the \<open>catch\<close>
  removes it.
\<close>

theorem cached_port_kept_after_failed_probe:
  "storage (snd (loadBridgePort net_silent cached_resolver)) = None \<and>
   storage (snd (loadBridgePort net_404 cached_resolver)) = Some ''50002'' \<and>
   storage (snd (loadBridgePort net_garbled cached_resolver)) = Some ''50002'' \<and>
   \<not> fst (loadBridgePort net_silent cached_resolver) \<and>
   \<not> fst (loadBridgePort net_404 cached_resolver) \<and>
   \<not> fst (loadBridgePort net_garbled cached_resolver)"
proof -
  have a: "net_404 ''/bridge-port'' 50002 \<noteq> Throws" "net_garbled ''/bridge-port'' 50002 \<noteq> Throws"
    by (simp_all add: net_404_def net_garbled_def)
  have "loadBridgePort net_404 cached_resolver =
     (False, \<lparr>BRIDGE_PORT = 50000, storage = Some ''50002'',
              fetches = (50002, ''/bridge-port'') # (50000, ''/bridge-port'') #
                        map (\<lambda>port. (port, ''/bridge-port'')) sweep_ports @
                        map (\<lambda>port. (port, ''/port'')) sweep_ports\<rparr>)"
    unfolding loadBridgePort_plan
    by (simp add: Let_def cached_resolver_candidate net_404_first a)
      (simp add: cached_resolver_def)
  moreover have "loadBridgePort net_garbled cached_resolver =
     (False, \<lparr>BRIDGE_PORT = 50000, storage = Some ''50002'',
              fetches = (50002, ''/bridge-port'') # (50000, ''/bridge-port'') #
                        map (\<lambda>port. (port, ''/bridge-port'')) sweep_ports @
                        map (\<lambda>port. (port, ''/port'')) sweep_ports\<rparr>)"
    unfolding loadBridgePort_plan
    by (simp add: Let_def cached_resolver_candidate net_garbled_first a)
      (simp add: cached_resolver_def)
  ultimately show ?thesis
    by (simp add: net_silent_resolved)
qed

section \<open>Frame lemmas of the event handlers\<close>

lemma sendOrQueue_frame [simp]:
  "bridgeSocket (sendOrQueue m s) = bridgeSocket s"
  "bridgeReady (sendOrQueue m s) = bridgeReady s"
  "console (sendOrQueue m s) = console s"
  "historicModeActive (sendOrQueue m s) = historicModeActive s"
  "currentRewardsElement (sendOrQueue m s) = currentRewardsElement s"
  "historicFlagImageUrl (sendOrQueue m s) = historicFlagImageUrl s"
  "pendingHistoricFlagRequest (sendOrQueue m s) = pendingHistoricFlagRequest s"
  "isInChampSelect (sendOrQueue m s) = isInChampSelect s"
  "retryCount (sendOrQueue m s) = retryCount s"
  "timers (sendOrQueue m s) = timers s"
  "body (sendOrQueue m s) = body s"
  "elems (sendOrQueue m s) = elems s"
  "popup (sendOrQueue m s) = popup s"
  "popupSeq (sendOrQueue m s) = popupSeq s"
  "wsThrows (sendOrQueue m s) = wsThrows s"
  by (simp_all add: sendOrQueue_def)

lemma log_frame [simp]:
  "bridgeSocket (log l m s) = bridgeSocket s"
  "bridgeReady (log l m s) = bridgeReady s"
  "historicModeActive (log l m s) = historicModeActive s"
  "currentRewardsElement (log l m s) = currentRewardsElement s"
  "historicFlagImageUrl (log l m s) = historicFlagImageUrl s"
  "pendingHistoricFlagRequest (log l m s) = pendingHistoricFlagRequest s"
  "isInChampSelect (log l m s) = isInChampSelect s"
  "retryCount (log l m s) = retryCount s"
  "timers (log l m s) = timers s"
  "body (log l m s) = body s"
  "elems (log l m s) = elems s"
  "popup (log l m s) = popup s"
  "popupSeq (log l m s) = popupSeq s"
  "wsThrows (log l m s) = wsThrows s"
  by (simp_all add: log_def)

lemma scheduleBridgeRetry_frame [simp]:
  "bridgeSocket (scheduleBridgeRetry s) = bridgeSocket s"
  "bridgeReady (scheduleBridgeRetry s) = bridgeReady s"
  "bridgeQueue (scheduleBridgeRetry s) = bridgeQueue s"
  "wire (scheduleBridgeRetry s) = wire s"
  "console (scheduleBridgeRetry s) = console s"
  "historicModeActive (scheduleBridgeRetry s) = historicModeActive s"
  "currentRewardsElement (scheduleBridgeRetry s) = currentRewardsElement s"
  "historicFlagImageUrl (scheduleBridgeRetry s) = historicFlagImageUrl s"
  "pendingHistoricFlagRequest (scheduleBridgeRetry s) = pendingHistoricFlagRequest s"
  "isInChampSelect (scheduleBridgeRetry s) = isInChampSelect s"
  "retryCount (scheduleBridgeRetry s) = retryCount s"
  "body (scheduleBridgeRetry s) = body s"
  "elems (scheduleBridgeRetry s) = elems s"
  "popup (scheduleBridgeRetry s) = popup s"
  "popupSeq (scheduleBridgeRetry s) = popupSeq s"
  "wsThrows (scheduleBridgeRetry s) = wsThrows s"
  by (simp_all add: scheduleBridgeRetry_def)

lemma setupBridgeSocket_frame [simp]:
  "bridgeReady (setupBridgeSocket s) = bridgeReady s"
  "historicModeActive (setupBridgeSocket s) = historicModeActive s"
  "currentRewardsElement (setupBridgeSocket s) = currentRewardsElement s"
  "historicFlagImageUrl (setupBridgeSocket s) = historicFlagImageUrl s"
  "pendingHistoricFlagRequest (setupBridgeSocket s) = pendingHistoricFlagRequest s"
  "isInChampSelect (setupBridgeSocket s) = isInChampSelect s"
  "retryCount (setupBridgeSocket s) = retryCount s"
  "body (setupBridgeSocket s) = body s"
  "elems (setupBridgeSocket s) = elems s"
  "popup (setupBridgeSocket s) = popup s"
  "popupSeq (setupBridgeSocket s) = popupSeq s"
  "wsThrows (setupBridgeSocket s) = wsThrows s"
  by (simp_all add: setupBridgeSocket_def)

lemma bridgeRetryCallback_frame [simp]:
  "bridgeReady (bridgeRetryCallback s) = bridgeReady s"
  "historicModeActive (bridgeRetryCallback s) = historicModeActive s"
  "currentRewardsElement (bridgeRetryCallback s) = currentRewardsElement s"
  "historicFlagImageUrl (bridgeRetryCallback s) = historicFlagImageUrl s"
  "pendingHistoricFlagRequest (bridgeRetryCallback s) = pendingHistoricFlagRequest s"
  "isInChampSelect (bridgeRetryCallback s) = isInChampSelect s"
  "retryCount (bridgeRetryCallback s) = retryCount s"
  "body (bridgeRetryCallback s) = body s"
  "elems (bridgeRetryCallback s) = elems s"
  "popup (bridgeRetryCallback s) = popup s"
  "popupSeq (bridgeRetryCallback s) = popupSeq s"
  "wsThrows (bridgeRetryCallback s) = wsThrows s"
  by (simp_all add: bridgeRetryCallback_def)

lemma flushBridgeQueue_frame [simp]:
  "bridgeSocket (flushBridgeQueue s) = bridgeSocket s"
  "bridgeReady (flushBridgeQueue s) = bridgeReady s"
  "console (flushBridgeQueue s) = console s"
  "historicModeActive (flushBridgeQueue s) = historicModeActive s"
  "currentRewardsElement (flushBridgeQueue s) = currentRewardsElement s"
  "historicFlagImageUrl (flushBridgeQueue s) = historicFlagImageUrl s"
  "pendingHistoricFlagRequest (flushBridgeQueue s) = pendingHistoricFlagRequest s"
  "isInChampSelect (flushBridgeQueue s) = isInChampSelect s"
  "retryCount (flushBridgeQueue s) = retryCount s"
  "timers (flushBridgeQueue s) = timers s"
  "body (flushBridgeQueue s) = body s"
  "elems (flushBridgeQueue s) = elems s"
  "popup (flushBridgeQueue s) = popup s"
  "popupSeq (flushBridgeQueue s) = popupSeq s"
  "wsThrows (flushBridgeQueue s) = wsThrows s"
  by (simp_all add: flushBridgeQueue_def)

lemma onopen_frame [simp]:
  "bridgeSocket (onopen s) = bridgeSocket s"
  "historicModeActive (onopen s) = historicModeActive s"
  "currentRewardsElement (onopen s) = currentRewardsElement s"
  "historicFlagImageUrl (onopen s) = historicFlagImageUrl s"
  "pendingHistoricFlagRequest (onopen s) = pendingHistoricFlagRequest s"
  "isInChampSelect (onopen s) = isInChampSelect s"
  "retryCount (onopen s) = retryCount s"
  "timers (onopen s) = timers s"
  "body (onopen s) = body s"
  "elems (onopen s) = elems s"
  "popup (onopen s) = popup s"
  "popupSeq (onopen s) = popupSeq s"
  "wsThrows (onopen s) = wsThrows s"
  by (simp_all add: onopen_def)

lemma onerror_frame [simp]:
  "bridgeSocket (onerror s) = bridgeSocket s"
  "bridgeReady (onerror s) = bridgeReady s"
  "historicModeActive (onerror s) = historicModeActive s"
  "currentRewardsElement (onerror s) = currentRewardsElement s"
  "historicFlagImageUrl (onerror s) = historicFlagImageUrl s"
  "pendingHistoricFlagRequest (onerror s) = pendingHistoricFlagRequest s"
  "isInChampSelect (onerror s) = isInChampSelect s"
  "retryCount (onerror s) = retryCount s"
  "timers (onerror s) = timers s"
  "body (onerror s) = body s"
  "elems (onerror s) = elems s"
  "popup (onerror s) = popup s"
  "popupSeq (onerror s) = popupSeq s"
  "wsThrows (onerror s) = wsThrows s"
  by (simp_all add: onerror_def)

lemma onclose_frame [simp]:
  "historicModeActive (onclose s) = historicModeActive s"
  "currentRewardsElement (onclose s) = currentRewardsElement s"
  "historicFlagImageUrl (onclose s) = historicFlagImageUrl s"
  "pendingHistoricFlagRequest (onclose s) = pendingHistoricFlagRequest s"
  "isInChampSelect (onclose s) = isInChampSelect s"
  "retryCount (onclose s) = retryCount s"
  "body (onclose s) = body s"
  "elems (onclose s) = elems s"
  "popup (onclose s) = popup s"
  "popupSeq (onclose s) = popupSeq s"
  "wsThrows (onclose s) = wsThrows s"
  by (simp_all add: onclose_def)

lemma removeHistoricSkinName_frame [simp]:
  "bridgeSocket (removeHistoricSkinName s) = bridgeSocket s"
  "bridgeReady (removeHistoricSkinName s) = bridgeReady s"
  "bridgeQueue (removeHistoricSkinName s) = bridgeQueue s"
  "wire (removeHistoricSkinName s) = wire s"
  "console (removeHistoricSkinName s) = console s"
  "historicModeActive (removeHistoricSkinName s) = historicModeActive s"
  "currentRewardsElement (removeHistoricSkinName s) = currentRewardsElement s"
  "historicFlagImageUrl (removeHistoricSkinName s) = historicFlagImageUrl s"
  "pendingHistoricFlagRequest (removeHistoricSkinName s) = pendingHistoricFlagRequest s"
  "isInChampSelect (removeHistoricSkinName s) = isInChampSelect s"
  "retryCount (removeHistoricSkinName s) = retryCount s"
  "timers (removeHistoricSkinName s) = timers s"
  "body (removeHistoricSkinName s) = body s"
  "elems (removeHistoricSkinName s) = elems s"
  "popupSeq (removeHistoricSkinName s) = popupSeq s"
  "wsThrows (removeHistoricSkinName s) = wsThrows s"
  by (simp_all add: removeHistoricSkinName_def)

lemma resetTimer_frame [simp]:
  "bridgeSocket (resetTimer p s) = bridgeSocket s"
  "bridgeReady (resetTimer p s) = bridgeReady s"
  "bridgeQueue (resetTimer p s) = bridgeQueue s"
  "wire (resetTimer p s) = wire s"
  "console (resetTimer p s) = console s"
  "historicModeActive (resetTimer p s) = historicModeActive s"
  "currentRewardsElement (resetTimer p s) = currentRewardsElement s"
  "historicFlagImageUrl (resetTimer p s) = historicFlagImageUrl s"
  "pendingHistoricFlagRequest (resetTimer p s) = pendingHistoricFlagRequest s"
  "isInChampSelect (resetTimer p s) = isInChampSelect s"
  "retryCount (resetTimer p s) = retryCount s"
  "body (resetTimer p s) = body s"
  "elems (resetTimer p s) = elems s"
  "popup (resetTimer p s) = popup s"
  "popupSeq (resetTimer p s) = popupSeq s"
  "wsThrows (resetTimer p s) = wsThrows s"
  by (simp_all add: resetTimer_def)

lemma showSkinName_frame [simp]:
  "bridgeSocket (showSkinName n s) = bridgeSocket s"
  "bridgeReady (showSkinName n s) = bridgeReady s"
  "bridgeQueue (showSkinName n s) = bridgeQueue s"
  "wire (showSkinName n s) = wire s"
  "console (showSkinName n s) = console s"
  "historicModeActive (showSkinName n s) = historicModeActive s"
  "currentRewardsElement (showSkinName n s) = currentRewardsElement s"
  "historicFlagImageUrl (showSkinName n s) = historicFlagImageUrl s"
  "pendingHistoricFlagRequest (showSkinName n s) = pendingHistoricFlagRequest s"
  "isInChampSelect (showSkinName n s) = isInChampSelect s"
  "retryCount (showSkinName n s) = retryCount s"
  "body (showSkinName n s) = body s"
  "elems (showSkinName n s) = elems s"
  "wsThrows (showSkinName n s) = wsThrows s"
  by (simp_all add: showSkinName_def split: option.splits)

lemma handleHistoricSkinNameUpdate_frame [simp]:
  "bridgeSocket (handleHistoricSkinNameUpdate n s) = bridgeSocket s"
  "bridgeReady (handleHistoricSkinNameUpdate n s) = bridgeReady s"
  "bridgeQueue (handleHistoricSkinNameUpdate n s) = bridgeQueue s"
  "wire (handleHistoricSkinNameUpdate n s) = wire s"
  "console (handleHistoricSkinNameUpdate n s) = console s"
  "historicModeActive (handleHistoricSkinNameUpdate n s) = historicModeActive s"
  "currentRewardsElement (handleHistoricSkinNameUpdate n s) = currentRewardsElement s"
  "historicFlagImageUrl (handleHistoricSkinNameUpdate n s) = historicFlagImageUrl s"
  "pendingHistoricFlagRequest (handleHistoricSkinNameUpdate n s) = pendingHistoricFlagRequest s"
  "isInChampSelect (handleHistoricSkinNameUpdate n s) = isInChampSelect s"
  "retryCount (handleHistoricSkinNameUpdate n s) = retryCount s"
  "body (handleHistoricSkinNameUpdate n s) = body s"
  "elems (handleHistoricSkinNameUpdate n s) = elems s"
  "wsThrows (handleHistoricSkinNameUpdate n s) = wsThrows s"
  by (simp_all add: handleHistoricSkinNameUpdate_def split: option.splits)

lemma popupExpire_frame [simp]:
  "bridgeSocket (popupExpire p s) = bridgeSocket s"
  "bridgeReady (popupExpire p s) = bridgeReady s"
  "bridgeQueue (popupExpire p s) = bridgeQueue s"
  "wire (popupExpire p s) = wire s"
  "console (popupExpire p s) = console s"
  "historicModeActive (popupExpire p s) = historicModeActive s"
  "currentRewardsElement (popupExpire p s) = currentRewardsElement s"
  "historicFlagImageUrl (popupExpire p s) = historicFlagImageUrl s"
  "pendingHistoricFlagRequest (popupExpire p s) = pendingHistoricFlagRequest s"
  "isInChampSelect (popupExpire p s) = isInChampSelect s"
  "retryCount (popupExpire p s) = retryCount s"
  "timers (popupExpire p s) = timers s"
  "body (popupExpire p s) = body s"
  "elems (popupExpire p s) = elems s"
  "popupSeq (popupExpire p s) = popupSeq s"
  "wsThrows (popupExpire p s) = wsThrows s"
  by (simp_all add: popupExpire_def split: option.splits)

lemma findRewardsElement_frame [simp]:
  "bridgeSocket (snd (findRewardsElement s)) = bridgeSocket s"
  "bridgeReady (snd (findRewardsElement s)) = bridgeReady s"
  "historicModeActive (snd (findRewardsElement s)) = historicModeActive s"
  "currentRewardsElement (snd (findRewardsElement s)) = currentRewardsElement s"
  "historicFlagImageUrl (snd (findRewardsElement s)) = historicFlagImageUrl s"
  "pendingHistoricFlagRequest (snd (findRewardsElement s)) = pendingHistoricFlagRequest s"
  "isInChampSelect (snd (findRewardsElement s)) = isInChampSelect s"
  "retryCount (snd (findRewardsElement s)) = retryCount s"
  "timers (snd (findRewardsElement s)) = timers s"
  "body (snd (findRewardsElement s)) = body s"
  "elems (snd (findRewardsElement s)) = elems s"
  "popupSeq (snd (findRewardsElement s)) = popupSeq s"
  "wsThrows (snd (findRewardsElement s)) = wsThrows s"
  by (simp_all add: findRewardsElement_def split: option.splits)

lemma hideFlagOnElement_frame [simp]:
  "bridgeSocket (hideFlagOnElement e s) = bridgeSocket s"
  "bridgeReady (hideFlagOnElement e s) = bridgeReady s"
  "bridgeQueue (hideFlagOnElement e s) = bridgeQueue s"
  "wire (hideFlagOnElement e s) = wire s"
  "console (hideFlagOnElement e s) = console s"
  "historicModeActive (hideFlagOnElement e s) = historicModeActive s"
  "currentRewardsElement (hideFlagOnElement e s) = currentRewardsElement s"
  "historicFlagImageUrl (hideFlagOnElement e s) = historicFlagImageUrl s"
  "pendingHistoricFlagRequest (hideFlagOnElement e s) = pendingHistoricFlagRequest s"
  "isInChampSelect (hideFlagOnElement e s) = isInChampSelect s"
  "retryCount (hideFlagOnElement e s) = retryCount s"
  "timers (hideFlagOnElement e s) = timers s"
  "body (hideFlagOnElement e s) = body s"
  "popup (hideFlagOnElement e s) = popup s"
  "popupSeq (hideFlagOnElement e s) = popupSeq s"
  "wsThrows (hideFlagOnElement e s) = wsThrows s"
  by (simp_all add: hideFlagOnElement_def split: option.splits)

lemma requestHistoricFlagImage_frame [simp]:
  "bridgeSocket (requestHistoricFlagImage s) = bridgeSocket s"
  "bridgeReady (requestHistoricFlagImage s) = bridgeReady s"
  "historicModeActive (requestHistoricFlagImage s) = historicModeActive s"
  "currentRewardsElement (requestHistoricFlagImage s) = currentRewardsElement s"
  "historicFlagImageUrl (requestHistoricFlagImage s) = historicFlagImageUrl s"
  "isInChampSelect (requestHistoricFlagImage s) = isInChampSelect s"
  "retryCount (requestHistoricFlagImage s) = retryCount s"
  "timers (requestHistoricFlagImage s) = timers s"
  "body (requestHistoricFlagImage s) = body s"
  "elems (requestHistoricFlagImage s) = elems s"
  "popup (requestHistoricFlagImage s) = popup s"
  "popupSeq (requestHistoricFlagImage s) = popupSeq s"
  "wsThrows (requestHistoricFlagImage s) = wsThrows s"
  by (simp_all add: requestHistoricFlagImage_def)

lemma notFound_frame [simp]:
  "bridgeSocket (notFound s) = bridgeSocket s"
  "bridgeReady (notFound s) = bridgeReady s"
  "historicModeActive (notFound s) = historicModeActive s"
  "currentRewardsElement (notFound s) = currentRewardsElement s"
  "historicFlagImageUrl (notFound s) = historicFlagImageUrl s"
  "pendingHistoricFlagRequest (notFound s) = pendingHistoricFlagRequest s"
  "isInChampSelect (notFound s) = isInChampSelect s"
  "body (notFound s) = body s"
  "elems (notFound s) = elems s"
  "popup (notFound s) = popup s"
  "popupSeq (notFound s) = popupSeq s"
  "wsThrows (notFound s) = wsThrows s"
  by (simp_all add: notFound_def Let_def split: option.splits)

lemma found_frame [simp]:
  "bridgeSocket (found e s) = bridgeSocket s"
  "bridgeReady (found e s) = bridgeReady s"
  "historicModeActive (found e s) = historicModeActive s"
  "historicFlagImageUrl (found e s) = historicFlagImageUrl s"
  "isInChampSelect (found e s) = isInChampSelect s"
  "timers (found e s) = timers s"
  "body (found e s) = body s"
  "popup (found e s) = popup s"
  "popupSeq (found e s) = popupSeq s"
  "wsThrows (found e s) = wsThrows s"
  by (simp_all add: found_def Let_def split: option.splits)

lemma updateHistoricFlag_frame [simp]:
  "bridgeSocket (updateHistoricFlag s) = bridgeSocket s"
  "bridgeReady (updateHistoricFlag s) = bridgeReady s"
  "historicModeActive (updateHistoricFlag s) = historicModeActive s"
  "historicFlagImageUrl (updateHistoricFlag s) = historicFlagImageUrl s"
  "isInChampSelect (updateHistoricFlag s) = isInChampSelect s"
  "body (updateHistoricFlag s) = body s"
  "popupSeq (updateHistoricFlag s) = popupSeq s"
  "wsThrows (updateHistoricFlag s) = wsThrows s"
  by (simp_all add: updateHistoricFlag_def case_prod_beta split: option.splits)

lemma retryCallback_frame [simp]:
  "bridgeSocket (retryCallback s) = bridgeSocket s"
  "bridgeReady (retryCallback s) = bridgeReady s"
  "historicModeActive (retryCallback s) = historicModeActive s"
  "historicFlagImageUrl (retryCallback s) = historicFlagImageUrl s"
  "isInChampSelect (retryCallback s) = isInChampSelect s"
  "body (retryCallback s) = body s"
  "popupSeq (retryCallback s) = popupSeq s"
  "wsThrows (retryCallback s) = wsThrows s"
  by (simp_all add: retryCallback_def)

lemma mutationCallback_frame [simp]:
  "bridgeSocket (mutationCallback s) = bridgeSocket s"
  "bridgeReady (mutationCallback s) = bridgeReady s"
  "historicModeActive (mutationCallback s) = historicModeActive s"
  "historicFlagImageUrl (mutationCallback s) = historicFlagImageUrl s"
  "isInChampSelect (mutationCallback s) = isInChampSelect s"
  "body (mutationCallback s) = body s"
  "popupSeq (mutationCallback s) = popupSeq s"
  "wsThrows (mutationCallback s) = wsThrows s"
  by (simp_all add: mutationCallback_def)

lemma handlePhaseChange_frame [simp]:
  "bridgeSocket (handlePhaseChange p s) = bridgeSocket s"
  "bridgeReady (handlePhaseChange p s) = bridgeReady s"
  "historicModeActive (handlePhaseChange p s) = historicModeActive s"
  "historicFlagImageUrl (handlePhaseChange p s) = historicFlagImageUrl s"
  "pendingHistoricFlagRequest (handlePhaseChange p s) = pendingHistoricFlagRequest s"
  "body (handlePhaseChange p s) = body s"
  "popup (handlePhaseChange p s) = popup s"
  "popupSeq (handlePhaseChange p s) = popupSeq s"
  "wsThrows (handlePhaseChange p s) = wsThrows s"
  by (simp_all add: handlePhaseChange_def Let_def split: option.splits)

lemma handleLocalAssetUrl_frame [simp]:
  "bridgeSocket (handleLocalAssetUrl p u s) = bridgeSocket s"
  "bridgeReady (handleLocalAssetUrl p u s) = bridgeReady s"
  "historicModeActive (handleLocalAssetUrl p u s) = historicModeActive s"
  "isInChampSelect (handleLocalAssetUrl p u s) = isInChampSelect s"
  "body (handleLocalAssetUrl p u s) = body s"
  "popupSeq (handleLocalAssetUrl p u s) = popupSeq s"
  "wsThrows (handleLocalAssetUrl p u s) = wsThrows s"
  by (simp_all add: handleLocalAssetUrl_def Let_def)

lemma handleHistoricStateUpdate_frame [simp]:
  "bridgeSocket (handleHistoricStateUpdate a n s) = bridgeSocket s"
  "bridgeReady (handleHistoricStateUpdate a n s) = bridgeReady s"
  "currentRewardsElement (handleHistoricStateUpdate a n s) = currentRewardsElement s"
  "historicFlagImageUrl (handleHistoricStateUpdate a n s) = historicFlagImageUrl s"
  "pendingHistoricFlagRequest (handleHistoricStateUpdate a n s) = pendingHistoricFlagRequest s"
  "isInChampSelect (handleHistoricStateUpdate a n s) = isInChampSelect s"
  "retryCount (handleHistoricStateUpdate a n s) = retryCount s"
  "body (handleHistoricStateUpdate a n s) = body s"
  "elems (handleHistoricStateUpdate a n s) = elems s"
  "wsThrows (handleHistoricStateUpdate a n s) = wsThrows s"
  by (simp_all add: handleHistoricStateUpdate_def Let_def)

section \<open>Properties of the bridge client\<close>

lemma timerCallback_frame [simp]:
  "bridgeReady (timerCallback t s) = bridgeReady s"
  "historicModeActive (timerCallback t s) = historicModeActive s"
  "historicFlagImageUrl (timerCallback t s) = historicFlagImageUrl s"
  "isInChampSelect (timerCallback t s) = isInChampSelect s"
  "body (timerCallback t s) = body s"
  "popupSeq (timerCallback t s) = popupSeq s"
  "wsThrows (timerCallback t s) = wsThrows s"
  by (cases t; simp)+

lemma fire_frame [simp]:
  "bridgeReady (fire i s) = bridgeReady s"
  "historicModeActive (fire i s) = historicModeActive s"
  "historicFlagImageUrl (fire i s) = historicFlagImageUrl s"
  "isInChampSelect (fire i s) = isInChampSelect s"
  "body (fire i s) = body s"
  "popupSeq (fire i s) = popupSeq s"
  "wsThrows (fire i s) = wsThrows s"
  by (simp_all add: fire_def)

lemma handleBridgeMessage_frame [simp]:
  "bridgeSocket (handleBridgeMessage p s) = bridgeSocket s"
  "bridgeReady (handleBridgeMessage p s) = bridgeReady s"
  "body (handleBridgeMessage p s) = body s"
  "wsThrows (handleBridgeMessage p s) = wsThrows s"
  by (cases p; simp)+

lemma run_Nil [simp]: "run s [] = s"
  by (simp add: run_def)

lemma run_Cons [simp]: "run s (e # evs) = run (step s e) evs"
  by (simp add: run_def)

lemma run_append: "run s (evs @ evs') = run (run s evs) evs'"
  by (simp add: run_def)

lemma run_snoc: "run s (evs @ [e]) = step (run s evs) e"
  by (simp add: run_def)

subsection \<open>The connection flag\<close>

lemma setupBridgeSocket_socket:
  "bridgeSocket (setupBridgeSocket s) =
     (if bridgeSocket s = Some OPEN then Some OPEN
      else if wsThrows s then bridgeSocket s else Some CONNECTING)"
  by (simp add: setupBridgeSocket_def)

lemma timerCallback_conn: "conn_inv s \<Longrightarrow> conn_inv (timerCallback t s)"
  by (cases t) (auto simp: conn_inv_def bridgeRetryCallback_def setupBridgeSocket_socket)

lemma conn_inv_timers [simp]: "conn_inv (s\<lparr>timers := ts\<rparr>) = conn_inv s"
  by (simp add: conn_inv_def)

lemma fire_conn: "conn_inv s \<Longrightarrow> conn_inv (fire i s)"
  by (simp add: fire_def timerCallback_conn)

lemma step_conn: "conn_inv s \<Longrightarrow> conn_inv (step s e)"
proof (cases e)
  case (Fire i)
  assume "conn_inv s"
  then show ?thesis using Fire by (simp add: fire_conn)
qed (auto simp: conn_inv_def onopen_def onclose_def flushBridgeQueue_def mutationCallback_def
      onerror_def scheduleBridgeRetry_def)

lemma run_conn: "conn_inv s \<Longrightarrow> conn_inv (run s evs)"
  by (induction evs arbitrary: s) (simp_all add: step_conn)

lemma init_conn: "conn_inv (init (initial_state b es))"
  by (simp add: conn_inv_def init_def initial_state_def)

subsection \<open>The outbound queue\<close>

lemma sends_not_ready:
  "\<not> (bridgeReady s \<and> bridgeSocket s = Some OPEN) \<Longrightarrow>
   bridgeQueue (sends ms s) = bridgeQueue s @ ms \<and> wire (sends ms s) = wire s \<and>
   bridgeReady (sends ms s) = bridgeReady s \<and> bridgeSocket (sends ms s) = bridgeSocket s"
proof (induction ms arbitrary: s)
  case Nil
  show ?case by (simp add: sends_def)
next
  case (Cons m ms)
  let ?t = "sendOrQueue m s"
  have t: "\<not> (bridgeReady ?t \<and> bridgeSocket ?t = Some OPEN)"
    "bridgeQueue ?t = bridgeQueue s @ [m]" "wire ?t = wire s"
    using Cons.prems by (auto simp: sendOrQueue_def)
  have "sends (m # ms) s = sends ms ?t"
    by (simp add: sends_def)
  then show ?case
    using Cons.IH [OF t(1)] t by simp
qed

lemma open_flushes:
  assumes "bridgeSocket s = Some CONNECTING" "\<not> bridgeReady s"
  shows "wire (step s SocketOpen) = wire s @ bridgeQueue s @ [connected_record]"
    and "bridgeQueue (step s SocketOpen) = []"
    and "bridgeReady (step s SocketOpen)"
    and "bridgeSocket (step s SocketOpen) = Some OPEN"
  using assms
  by (simp_all add: onopen_def flushBridgeQueue_def log_def sendOrQueue_def connected_record_def)

lemma init_connection:
  "bridgeSocket (init (initial_state b es)) = Some CONNECTING"
  "bridgeReady (init (initial_state b es)) = False"
  "wire (init (initial_state b es)) = []"
  "bridgeQueue (init (initial_state b es)) =
     [ChromaLog ''info'' ''Initializing LU-HistoricMode plugin'',
      ChromaLog ''debug'' ''Requesting historic flag image from Python'',
      RequestLocalAsset HISTORIC_FLAG_ASSET_PATH,
      ChromaLog ''info'' ''LU-HistoricMode plugin initialized'']"
  by (simp_all add: init_def initial_state_def setupBridgeSocket_def requestHistoricFlagImage_def
      url_unset_def log_def sendOrQueue_def)

section \<open>Properties of the view synchronizer\<close>

lemma requests_emitted_update [simp]:
  "requests_emitted (s\<lparr>bridgeSocket := x0\<rparr>) = requests_emitted s"
  "requests_emitted (s\<lparr>bridgeReady := x1\<rparr>) = requests_emitted s"
  "requests_emitted (s\<lparr>console := x4\<rparr>) = requests_emitted s"
  "requests_emitted (s\<lparr>historicModeActive := x5\<rparr>) = requests_emitted s"
  "requests_emitted (s\<lparr>currentRewardsElement := x6\<rparr>) = requests_emitted s"
  "requests_emitted (s\<lparr>historicFlagImageUrl := x7\<rparr>) = requests_emitted s"
  "requests_emitted (s\<lparr>pendingHistoricFlagRequest := x8\<rparr>) = requests_emitted s"
  "requests_emitted (s\<lparr>isInChampSelect := x9\<rparr>) = requests_emitted s"
  "requests_emitted (s\<lparr>retryCount := x10\<rparr>) = requests_emitted s"
  "requests_emitted (s\<lparr>timers := x11\<rparr>) = requests_emitted s"
  "requests_emitted (s\<lparr>body := x12\<rparr>) = requests_emitted s"
  "requests_emitted (s\<lparr>elems := x13\<rparr>) = requests_emitted s"
  "requests_emitted (s\<lparr>popup := x14\<rparr>) = requests_emitted s"
  "requests_emitted (s\<lparr>popupSeq := x15\<rparr>) = requests_emitted s"
  "requests_emitted (s\<lparr>wsThrows := x16\<rparr>) = requests_emitted s"
  by (simp_all add: requests_emitted_def)

lemma logged_update [simp]:
  "logged r (s\<lparr>bridgeSocket := x0\<rparr>) = logged r s"
  "logged r (s\<lparr>bridgeReady := x1\<rparr>) = logged r s"
  "logged r (s\<lparr>bridgeQueue := x2\<rparr>) = logged r s"
  "logged r (s\<lparr>wire := x3\<rparr>) = logged r s"
  "logged r (s\<lparr>historicModeActive := x5\<rparr>) = logged r s"
  "logged r (s\<lparr>currentRewardsElement := x6\<rparr>) = logged r s"
  "logged r (s\<lparr>historicFlagImageUrl := x7\<rparr>) = logged r s"
  "logged r (s\<lparr>pendingHistoricFlagRequest := x8\<rparr>) = logged r s"
  "logged r (s\<lparr>isInChampSelect := x9\<rparr>) = logged r s"
  "logged r (s\<lparr>retryCount := x10\<rparr>) = logged r s"
  "logged r (s\<lparr>timers := x11\<rparr>) = logged r s"
  "logged r (s\<lparr>body := x12\<rparr>) = logged r s"
  "logged r (s\<lparr>elems := x13\<rparr>) = logged r s"
  "logged r (s\<lparr>popup := x14\<rparr>) = logged r s"
  "logged r (s\<lparr>popupSeq := x15\<rparr>) = logged r s"
  "logged r (s\<lparr>wsThrows := x16\<rparr>) = logged r s"
  by (simp_all add: logged_def)

lemma scheduleBridgeRetry_outputs [simp]:
  "requests_emitted (scheduleBridgeRetry s) = requests_emitted s"
  "logged r (scheduleBridgeRetry s) = logged r s"
  by (simp_all add: requests_emitted_def logged_def)

lemma removeHistoricSkinName_outputs [simp]:
  "requests_emitted (removeHistoricSkinName s) = requests_emitted s"
  "logged r (removeHistoricSkinName s) = logged r s"
  by (simp_all add: requests_emitted_def logged_def)

lemma resetTimer_outputs [simp]:
  "requests_emitted (resetTimer p s) = requests_emitted s"
  "logged r (resetTimer p s) = logged r s"
  by (simp_all add: requests_emitted_def logged_def)

lemma showSkinName_outputs [simp]:
  "requests_emitted (showSkinName n s) = requests_emitted s"
  "logged r (showSkinName n s) = logged r s"
  by (simp_all add: requests_emitted_def logged_def)

lemma handleHistoricSkinNameUpdate_outputs [simp]:
  "requests_emitted (handleHistoricSkinNameUpdate n s) = requests_emitted s"
  "logged r (handleHistoricSkinNameUpdate n s) = logged r s"
  by (simp_all add: requests_emitted_def logged_def)

lemma popupExpire_outputs [simp]:
  "requests_emitted (popupExpire p s) = requests_emitted s"
  "logged r (popupExpire p s) = logged r s"
  by (simp_all add: requests_emitted_def logged_def)

lemma hideFlagOnElement_outputs [simp]:
  "requests_emitted (hideFlagOnElement e s) = requests_emitted s"
  "logged r (hideFlagOnElement e s) = logged r s"
  by (simp_all add: requests_emitted_def logged_def)


lemma sendOrQueue_outputs [simp]:
  "requests_emitted (sendOrQueue m s) = (if is_request m then Suc (requests_emitted s) else requests_emitted s)"
  "logged r (sendOrQueue m s) = logged r s"
  by (simp_all add: requests_emitted_def logged_def sendOrQueue_def)

lemma log_outputs [simp]:
  "requests_emitted (log l m s) = requests_emitted s"
  "logged r (log l m s) = (if (l, m) = r then Suc (logged r s) else logged r s)"
  by (simp_all add: requests_emitted_def logged_def log_def sendOrQueue_def is_request_def)

lemma flushBridgeQueue_outputs [simp]:
  "requests_emitted (flushBridgeQueue s) = requests_emitted s"
  "logged r (flushBridgeQueue s) = logged r s"
  by (simp_all add: requests_emitted_def logged_def flushBridgeQueue_def)

lemma is_request_simps [simp]:
  "is_request (RequestLocalAsset a)" "\<not> is_request (ChromaLog l t)"
  by (simp_all add: is_request_def)

lemma bridge_outputs [simp]:
  "requests_emitted (setupBridgeSocket s) = requests_emitted s"
  "requests_emitted (bridgeRetryCallback s) = requests_emitted s"
  "requests_emitted (onopen s) = requests_emitted s"
  "requests_emitted (onerror s) = requests_emitted s"
  "requests_emitted (onclose s) = requests_emitted s"
  by (simp_all add: setupBridgeSocket_def bridgeRetryCallback_def onopen_def onerror_def onclose_def)

lemma bridge_logged [simp]:
  assumes "own_record r"
  shows "logged r (setupBridgeSocket s) = logged r s"
    and "logged r (bridgeRetryCallback s) = logged r s"
    and "logged r (onopen s) = logged r s"
    and "logged r (onerror s) = logged r s"
    and "logged r (onclose s) = logged r s"
  using assms
  by (auto simp: setupBridgeSocket_def bridgeRetryCallback_def onopen_def onerror_def onclose_def
      own_record_def shown_record_def retry_record_def giveup_record_def)

subsection \<open>Finding the element\<close>

lemma findRewardsElement_cong:
  "isInChampSelect s' = isInChampSelect s \<Longrightarrow> body s' = body s \<Longrightarrow> elems s' = elems s \<Longrightarrow>
   fst (findRewardsElement s') = fst (findRewardsElement s)"
  by (simp add: findRewardsElement_def split: option.splits)

lemma find_fst:
  "fst (findRewardsElement s) = (if isInChampSelect s then locate (body s) (elems s) else None)"
proof (cases "isInChampSelect s")
  case True
  let ?t = "(initial_state (body s) (elems s))\<lparr>isInChampSelect := True\<rparr>"
  have "fst (findRewardsElement ?t) = fst (findRewardsElement s)"
    by (rule findRewardsElement_cong) (simp_all add: initial_state_def True)
  then show ?thesis
    using True by (simp add: locate_def)
next
  case False
  then show ?thesis by (simp add: findRewardsElement_def)
qed

lemma find_popup:
  "popup (snd (findRewardsElement s)) =
     (if isInChampSelect s \<and> fst (findRewardsElement s) = None then None else popup s)"
  by (simp add: findRewardsElement_def removeHistoricSkinName_def split: option.splits)

lemma find_outputs [simp]:
  "requests_emitted (snd (findRewardsElement s)) = requests_emitted s"
  "own_record r \<Longrightarrow> logged r (snd (findRewardsElement s)) = logged r s"
  by (auto simp: findRewardsElement_def own_record_def shown_record_def retry_record_def
      giveup_record_def split: option.splits)

subsection \<open>The asset request\<close>

lemma asked_update [simp]:
  "asked (s\<lparr>bridgeSocket := x0\<rparr>) = asked s"
  "asked (s\<lparr>bridgeReady := x1\<rparr>) = asked s"
  "asked (s\<lparr>bridgeQueue := x2\<rparr>) = asked s"
  "asked (s\<lparr>wire := x3\<rparr>) = asked s"
  "asked (s\<lparr>console := x4\<rparr>) = asked s"
  "asked (s\<lparr>historicModeActive := x5\<rparr>) = asked s"
  "asked (s\<lparr>currentRewardsElement := x6\<rparr>) = asked s"
  "asked (s\<lparr>isInChampSelect := x9\<rparr>) = asked s"
  "asked (s\<lparr>retryCount := x10\<rparr>) = asked s"
  "asked (s\<lparr>timers := x11\<rparr>) = asked s"
  "asked (s\<lparr>body := x12\<rparr>) = asked s"
  "asked (s\<lparr>elems := x13\<rparr>) = asked s"
  "asked (s\<lparr>popup := x14\<rparr>) = asked s"
  "asked (s\<lparr>popupSeq := x15\<rparr>) = asked s"
  "asked (s\<lparr>wsThrows := x16\<rparr>) = asked s"
  by (simp_all add: asked_def)

lemma asked_frames [simp]:
  "asked (log l m s) = asked s"
  "asked (sendOrQueue msg s) = asked s"
  "asked (hideFlagOnElement el s) = asked s"
  "asked (snd (findRewardsElement s)) = asked s"
  "asked (notFound s) = asked s"
  "asked (setupBridgeSocket s) = asked s"
  "asked (bridgeRetryCallback s) = asked s"
  "asked (onopen s) = asked s"
  "asked (onerror s) = asked s"
  "asked (onclose s) = asked s"
  "asked (popupExpire p s) = asked s"
  "asked (handlePhaseChange ph s) = asked s"
  "asked (handleHistoricStateUpdate a n s) = asked s"
  by (simp_all add: asked_def)

lemma request_asked: "asked s \<Longrightarrow> requestHistoricFlagImage s = s"
  by (auto simp: asked_def requestHistoricFlagImage_def)

lemma request_fresh:
  assumes "\<not> asked s"
  shows "requests_emitted (requestHistoricFlagImage s) = Suc (requests_emitted s)"
    and "pendingHistoricFlagRequest (requestHistoricFlagImage s) =
           (pendingHistoricFlagRequest s)(HISTORIC_FLAG_ASSET_PATH \<mapsto> True)"
  using assms by (simp_all add: asked_def requestHistoricFlagImage_def)

lemma request_makes_asked [simp]: "asked (requestHistoricFlagImage s)"
  by (auto simp: asked_def requestHistoricFlagImage_def)

lemma request_logged [simp]:
  "own_record r \<Longrightarrow> logged r (requestHistoricFlagImage s) = logged r s"
  by (auto simp: requestHistoricFlagImage_def own_record_def shown_record_def retry_record_def
      giveup_record_def)

subsection \<open>The element was not found\<close>

lemma notFound_requests [simp]: "requests_emitted (notFound s) = requests_emitted s"
  by (simp add: notFound_def Let_def split: option.splits)

lemma notFound_shown [simp]: "logged shown_record (notFound s) = logged shown_record s"
  by (simp add: notFound_def Let_def shown_record_def split: option.splits)

lemma notFound_outside: "\<not> isInChampSelect s \<Longrightarrow> notFound s = s"
  by (simp add: notFound_def)

lemma notFound_retry:
  assumes "isInChampSelect s" "retry_value s < 5"
  shows "retryCount (notFound s) = Some (Suc (retry_value s))"
    and "timers (notFound s) = timers s @ [RetryTimer]"
    and "logged retry_record (notFound s) = Suc (logged retry_record s)"
    and "logged giveup_record (notFound s) = logged giveup_record s"
  using assms
  by (auto simp: notFound_def Let_def retry_value_def retry_record_def giveup_record_def
      split: option.splits)

lemma notFound_giveup:
  assumes "isInChampSelect s" "5 \<le> retry_value s"
  shows "retryCount (notFound s) = Some 0"
    and "timers (notFound s) = timers s"
    and "logged retry_record (notFound s) = Suc (logged retry_record s)"
    and "logged giveup_record (notFound s) = Suc (logged giveup_record s)"
  using assms
  by (auto simp: notFound_def Let_def retry_value_def retry_record_def giveup_record_def
      split: option.splits)

subsection \<open>The element was found\<close>

lemma found_retry [simp]: "retryCount (found e s) = Some 0"
  by (simp add: found_def Let_def split: option.splits)

lemma found_current [simp]: "currentRewardsElement (found e s) = Some e"
  by (simp add: found_def Let_def split: option.splits)

lemma found_asked:
  assumes "asked s"
  shows "requests_emitted (found e s) = requests_emitted s"
    and "pendingHistoricFlagRequest (found e s) = pendingHistoricFlagRequest s"
    and "asked (found e s)"
  using assms
  by (simp_all add: found_def Let_def request_asked split: option.splits)

lemma found_makes_asked: "historicModeActive s \<Longrightarrow> asked (found e s)"
proof (cases "asked s")
  case True
  then show ?thesis by (rule found_asked(3))
next
  case False
  assume "historicModeActive s"
  with False show ?thesis
    by (auto simp: found_def Let_def asked_def [of s] url_unset_def split: option.splits)
qed

lemma found_logged_shown:
  "logged shown_record (found e s) =
     (if historicModeActive s \<and> \<not> url_unset (historicFlagImageUrl s)
      then Suc (logged shown_record s) else logged shown_record s)"
  by (auto simp: found_def Let_def url_unset_def own_record_def shown_record_def
      requestHistoricFlagImage_def split: option.splits)

lemma found_logged_other [simp]:
  "logged retry_record (found e s) = logged retry_record s"
  "logged giveup_record (found e s) = logged giveup_record s"
  by (auto simp: found_def Let_def retry_record_def giveup_record_def
      requestHistoricFlagImage_def split: option.splits)

subsection \<open>One synchronization\<close>

lemma update_outside: "\<not> isInChampSelect s \<Longrightarrow> updateHistoricFlag s = s"
  by (simp add: updateHistoricFlag_def)

lemma update_split:
  "isInChampSelect s \<Longrightarrow>
   updateHistoricFlag s =
     (case locate (body s) (elems s) of
        None \<Rightarrow> notFound (snd (findRewardsElement s))
      | Some e \<Rightarrow> found e (snd (findRewardsElement s)))"
  using find_fst [of s]
  by (simp add: updateHistoricFlag_def case_prod_beta split: option.splits)

lemma update_asked:
  assumes "asked s"
  shows "requests_emitted (updateHistoricFlag s) = requests_emitted s"
    and "asked (updateHistoricFlag s)"
proof -
  have "requests_emitted (updateHistoricFlag s) = requests_emitted s \<and> asked (updateHistoricFlag s)"
  proof (cases "isInChampSelect s")
    case False
    then show ?thesis using assms by (simp add: update_outside)
  next
    case True
    show ?thesis
      unfolding update_split [OF True]
      using assms by (simp add: found_asked split: option.splits)
  qed
  then show "requests_emitted (updateHistoricFlag s) = requests_emitted s"
    and "asked (updateHistoricFlag s)" by simp_all
qed

lemma update_pending:
  "pendingHistoricFlagRequest s HISTORIC_FLAG_ASSET_PATH \<noteq> None \<Longrightarrow>
   pendingHistoricFlagRequest (updateHistoricFlag s) = pendingHistoricFlagRequest s"
proof (cases "isInChampSelect s")
  case False
  then show ?thesis by (simp add: update_outside)
next
  case True
  assume p: "pendingHistoricFlagRequest s HISTORIC_FLAG_ASSET_PATH \<noteq> None"
  then have "asked (snd (findRewardsElement s))"
    by (simp add: asked_def)
  then show ?thesis
    unfolding update_split [OF True]
    by (simp add: found_asked split: option.splits)
qed

lemma handleLocalAssetUrl_ignored:
  "\<not> (p = Some HISTORIC_FLAG_ASSET_PATH \<and> \<not> url_unset u) \<Longrightarrow> handleLocalAssetUrl p u s = s"
  by (auto simp: handleLocalAssetUrl_def)

lemma handleLocalAssetUrl_asked:
  "asked s \<Longrightarrow>
   requests_emitted (handleLocalAssetUrl p u s) = requests_emitted s \<and>
   asked (handleLocalAssetUrl p u s)"
  by (simp add: handleLocalAssetUrl_def Let_def update_asked asked_def [of "_\<lparr>historicFlagImageUrl := _, pendingHistoricFlagRequest := _\<rparr>"])

lemma handlePhaseChange_requests [simp]:
  "requests_emitted (handlePhaseChange ph s) = requests_emitted s"
  by (simp add: handlePhaseChange_def Let_def split: option.splits)

lemma handleHistoricStateUpdate_requests [simp]:
  "requests_emitted (handleHistoricStateUpdate a n s) = requests_emitted s"
  by (simp add: handleHistoricStateUpdate_def Let_def)

lemma timerCallback_asked:
  "asked s \<Longrightarrow> requests_emitted (timerCallback t s) = requests_emitted s \<and> asked (timerCallback t s)"
  by (cases t) (simp_all add: update_asked retryCallback_def)

lemma step_asked:
  assumes "asked s"
  shows "requests_emitted (step s e) = requests_emitted s \<and> asked (step s e)"
proof (cases e)
  case (Message p)
  then show ?thesis
    using assms by (cases p) (simp_all add: handleLocalAssetUrl_asked)
next
  case (Fire i)
  then show ?thesis
    using assms timerCallback_asked [of "s\<lparr>timers := take i (timers s) @ drop (Suc i) (timers s)\<rparr>"]
    by (simp add: fire_def)
next
  case Mutation
  then show ?thesis
    using assms by (simp add: mutationCallback_def update_asked)
qed (use assms in \<open>simp_all add: asked_def [of "_\<lparr>bridgeSocket := _\<rparr>"]\<close>)

lemma run_asked:
  "asked s \<Longrightarrow> requests_emitted (run s evs) = requests_emitted s \<and> asked (run s evs)"
proof (induction evs arbitrary: s)
  case Nil
  then show ?case by simp
next
  case (Cons e evs)
  from step_asked [OF Cons.prems, of e] Cons.IH [of "step s e"]
  show ?case by simp
qed

text \<open>The marker and the URL under events that do not resolve the asset.\<close>

lemma step_unresolved:
  assumes "pendingHistoricFlagRequest s HISTORIC_FLAG_ASSET_PATH \<noteq> None" "\<not> resolves e"
  shows "pendingHistoricFlagRequest (step s e) = pendingHistoricFlagRequest s \<and>
         historicFlagImageUrl (step s e) = historicFlagImageUrl s"
proof (cases e)
  case (Message p)
  then show ?thesis
    using assms by (cases p) (simp_all add: handleLocalAssetUrl_ignored)
next
  case (Fire i)
  show ?thesis
  proof (cases "i < length (timers s)")
    case False
    then show ?thesis using Fire by (simp add: fire_def)
  next
    case True
    let ?t = "s\<lparr>timers := take i (timers s) @ drop (Suc i) (timers s)\<rparr>"
    have "pendingHistoricFlagRequest (timerCallback (timers s ! i) ?t) = pendingHistoricFlagRequest ?t"
      using assms(1) by (cases "timers s ! i") (simp_all add: update_pending retryCallback_def)
    then show ?thesis
      using Fire True by (simp add: fire_def)
  qed
next
  case Mutation
  then show ?thesis
    using assms by (simp add: mutationCallback_def update_pending)
qed simp_all

lemma run_unresolved:
  "pendingHistoricFlagRequest s HISTORIC_FLAG_ASSET_PATH \<noteq> None \<Longrightarrow> list_all (\<lambda>e. \<not> resolves e) evs \<Longrightarrow>
   pendingHistoricFlagRequest (run s evs) = pendingHistoricFlagRequest s \<and>
   historicFlagImageUrl (run s evs) = historicFlagImageUrl s"
proof (induction evs arbitrary: s)
  case Nil
  then show ?case by simp
next
  case (Cons e evs)
  from Cons.prems have e: "\<not> resolves e" and r: "list_all (\<lambda>e. \<not> resolves e) evs"
    by simp_all
  note st = step_unresolved [OF Cons.prems(1) e]
  then have "pendingHistoricFlagRequest (step s e) HISTORIC_FLAG_ASSET_PATH \<noteq> None"
    using Cons.prems(1) by simp
  from Cons.IH [OF this r] st show ?case by simp
qed

text \<open>
  Claim C10. A \<open>local-asset-url\<close> message whose path is not the tracked one, or whose
  \<open>url\<close> is missing or empty, leaves the whole state as it is, the stored URL and the
  pending marker included. Once the marker is set, no event of any kind makes the plugin
  emit another request for the asset; and as long as no message resolves the asset, the
  marker stays set and the URL stays what it was.
\<close>

theorem unmatched_asset_message_ignored:
  "(\<not> resolves (Message (LocalAssetUrl p u)) \<longrightarrow> step s (Message (LocalAssetUrl p u)) = s) \<and>
   (pendingHistoricFlagRequest s HISTORIC_FLAG_ASSET_PATH \<noteq> None \<longrightarrow>
      requests_emitted (run s evs) = requests_emitted s) \<and>
   (pendingHistoricFlagRequest s HISTORIC_FLAG_ASSET_PATH \<noteq> None \<and>
    list_all (\<lambda>e. \<not> resolves e) evs \<longrightarrow>
      pendingHistoricFlagRequest (run s evs) = pendingHistoricFlagRequest s \<and>
      historicFlagImageUrl (run s evs) = historicFlagImageUrl s)"
proof -
  have a: "step s (Message (LocalAssetUrl p u)) = s" if "\<not> resolves (Message (LocalAssetUrl p u))"
    using that by (simp add: handleLocalAssetUrl_ignored)
  have b: "requests_emitted (run s evs) = requests_emitted s"
    if "pendingHistoricFlagRequest s HISTORIC_FLAG_ASSET_PATH \<noteq> None"
    using run_asked [of s evs] that by (simp add: asked_def)
  show ?thesis
    using a b run_unresolved [of s evs] by blast
qed

lemma init_asset:
  "pendingHistoricFlagRequest (init (initial_state b es)) = [HISTORIC_FLAG_ASSET_PATH \<mapsto> True]"
  "historicFlagImageUrl (init (initial_state b es)) = None"
  "requests_emitted (init (initial_state b es)) = 1"
  by (simp_all add: init_def initial_state_def requestHistoricFlagImage_def url_unset_def
      requests_emitted_def log_def sendOrQueue_def setupBridgeSocket_def)

lemma quiet_run_quiet: "list_all (\<lambda>e. \<not> resolves e) quiet_run"
  by (simp add: quiet_run_def url_unset_def HISTORIC_FLAG_ASSET_PATH_def)

theorem unmatched_asset_message_ignored_witness:
  "\<not> resolves (Message (LocalAssetUrl (Some ''other.png'') (Some sample_url))) \<and>
   step fresh (Message (LocalAssetUrl (Some ''other.png'') (Some sample_url))) = fresh \<and>
   pendingHistoricFlagRequest fresh HISTORIC_FLAG_ASSET_PATH \<noteq> None \<and>
   list_all (\<lambda>e. \<not> resolves e) quiet_run \<and>
   requests_emitted (run fresh quiet_run) = 1 \<and>
   pendingHistoricFlagRequest (run fresh quiet_run) HISTORIC_FLAG_ASSET_PATH = Some True \<and>
   historicFlagImageUrl (run fresh quiet_run) = None"
proof -
  note th = unmatched_asset_message_ignored [of "Some ''other.png''" "Some sample_url" fresh quiet_run]
  have n: "\<not> resolves (Message (LocalAssetUrl (Some ''other.png'') (Some sample_url)))"
    by (simp add: HISTORIC_FLAG_ASSET_PATH_def)
  have p: "pendingHistoricFlagRequest fresh HISTORIC_FLAG_ASSET_PATH \<noteq> None"
    by (simp add: fresh_def init_asset)
  from th n have a: "step fresh (Message (LocalAssetUrl (Some ''other.png'') (Some sample_url))) = fresh"
    by blast
  from th p have b: "requests_emitted (run fresh quiet_run) = requests_emitted fresh"
    by blast
  from th p quiet_run_quiet have c:
    "pendingHistoricFlagRequest (run fresh quiet_run) = pendingHistoricFlagRequest fresh"
    "historicFlagImageUrl (run fresh quiet_run) = historicFlagImageUrl fresh"
    by blast+
  show ?thesis
    using n a p b c quiet_run_quiet by (simp add: fresh_def init_asset)
qed

section \<open>The target phase and the asset URL\<close>

subsection \<open>What a synchronization writes to the page\<close>

lemma kept_or_cleared_refl [simp]: "kept_or_cleared es es"
  by (simp add: kept_or_cleared_def)

lemma kept_or_cleared_hide [simp]: "kept_or_cleared es (es(i := hideFlag (es i)))"
  by (simp add: kept_or_cleared_def)

lemma hideFlagOnElement_elems:
  "elems (hideFlagOnElement el s) =
     (case el of None \<Rightarrow> elems s | Some i \<Rightarrow> (elems s)(i := hideFlag (elems s i)))"
  by (simp add: hideFlagOnElement_def split: option.splits)

lemma request_elems [simp]: "elems (requestHistoricFlagImage s) = elems s"
  by (simp add: requestHistoricFlagImage_def)


lemma found_elems_apply:
  "historicModeActive s \<Longrightarrow> historicFlagImageUrl s = Some u \<Longrightarrow> u \<noteq> [] \<Longrightarrow>
   currentRewardsElement s = None \<or> currentRewardsElement s = Some e \<Longrightarrow>
   elems (found e s) = (elems s)(e := applyFlag u (elems s e))"
  by (auto simp: found_def Let_def)


lemma handlePhaseChange_elems:
  "kept_or_cleared (elems s) (elems (handlePhaseChange ph s))"
  "\<not> isInChampSelect s \<Longrightarrow> elems (handlePhaseChange ph s) = elems s"
  by (auto simp: handlePhaseChange_def Let_def hideFlagOnElement_elems split: option.splits)

lemma handlePhaseChange_flag [simp]:
  "isInChampSelect (handlePhaseChange ph s) = phase_member ph"
  by (simp add: handlePhaseChange_def Let_def split: option.splits)

lemma step_flag:
  "isInChampSelect (step s e) =
     (case e of Message (PhaseChange ph) \<Rightarrow> phase_member ph | _ \<Rightarrow> isInChampSelect s)"
proof (cases e)
  case (Message p)
  then show ?thesis by (cases p) simp_all
qed (simp_all add: onopen_def)

lemma timerCallback_outside:
  "\<not> isInChampSelect s \<Longrightarrow> elems (timerCallback t s) = elems s"
  by (cases t) (simp_all add: update_outside retryCallback_def)

lemma step_outside_elems:
  assumes "\<not> page_change e" "\<not> isInChampSelect s"
  shows "elems (step s e) = elems s"
proof (cases e)
  case (Message p)
  then show ?thesis
    using assms by (cases p) (simp_all add: handlePhaseChange_elems handleLocalAssetUrl_def Let_def)
next
  case (Fire i)
  then show ?thesis
    using assms timerCallback_outside [of "s\<lparr>timers := take i (timers s) @ drop (Suc i) (timers s)\<rparr>"]
    by (simp add: fire_def)
next
  case Mutation
  then show ?thesis using assms by (simp add: mutationCallback_def)
qed (use assms in simp_all)

lemma step_exit_elems:
  assumes "\<not> page_change e" "\<not> isInChampSelect (step s e)"
  shows "kept_or_cleared (elems s) (elems (step s e))"
proof (cases "isInChampSelect s")
  case False
  then show ?thesis using step_outside_elems [OF assms(1)] by simp
next
  case True
  with assms(2) obtain ph where "e = Message (PhaseChange ph)"
    by (auto simp: step_flag split: event.splits payload.splits)
  then show ?thesis by (simp add: handlePhaseChange_elems)
qed

subsection \<open>When the apply step runs\<close>

lemma shown_own [simp]: "own_record shown_record"
  by (simp add: own_record_def)

lemma update_shown:
  "logged shown_record (updateHistoricFlag s) =
     (if isInChampSelect s \<and> locate (body s) (elems s) \<noteq> None \<and> historicModeActive s \<and>
         \<not> url_unset (historicFlagImageUrl s)
      then Suc (logged shown_record s) else logged shown_record s)"
proof (cases "isInChampSelect s")
  case False
  then show ?thesis by (simp add: update_outside)
next
  case True
  show ?thesis
    unfolding update_split [OF True]
    using True by (simp add: found_logged_shown split: option.splits)
qed

lemma handlePhaseChange_shown [simp]:
  "logged shown_record (handlePhaseChange ph s) = logged shown_record s"
  by (simp add: handlePhaseChange_def Let_def shown_record_def split: option.splits)

lemma handleHistoricStateUpdate_shown [simp]:
  "logged shown_record (handleHistoricStateUpdate a n s) = logged shown_record s"
  by (simp add: handleHistoricStateUpdate_def Let_def shown_record_def)

lemma handleLocalAssetUrl_shown:
  "logged shown_record (handleLocalAssetUrl p u s) \<noteq> logged shown_record s \<Longrightarrow>
   isInChampSelect s \<and> resolves (Message (LocalAssetUrl p u))"
  by (auto simp: handleLocalAssetUrl_def Let_def shown_record_def [of] update_shown
      split: if_splits)

lemma timerCallback_shown:
  "logged shown_record (timerCallback t s) \<noteq> logged shown_record s \<Longrightarrow>
   isInChampSelect s \<and> \<not> url_unset (historicFlagImageUrl s)"
  by (cases t) (auto simp: update_shown retryCallback_def split: if_splits)

lemma step_shown:
  assumes "logged shown_record (step s e) \<noteq> logged shown_record s"
  shows "isInChampSelect s \<and> isInChampSelect (step s e) \<and>
         (\<not> url_unset (historicFlagImageUrl s) \<or> resolves e)"
proof (cases e)
  case (Message p)
  show ?thesis
  proof (cases p)
    case (LocalAssetUrl a u)
    with Message assms handleLocalAssetUrl_shown [of a u s] show ?thesis by simp
  qed (use Message assms in simp_all)
next
  case (Fire i)
  with assms have "i < length (timers s)"
    by (auto simp: fire_def split: if_splits)
  with Fire assms
    timerCallback_shown [of "timers s ! i" "s\<lparr>timers := take i (timers s) @ drop (Suc i) (timers s)\<rparr>"]
  show ?thesis by (simp add: fire_def)
next
  case Mutation
  with assms show ?thesis
    by (auto simp: mutationCallback_def update_shown split: if_splits)
next
  case BadMessage
  with assms show ?thesis by (simp add: shown_record_def)
qed (use assms in \<open>simp_all split: if_splits\<close>)

lemma run_flag:
  "isInChampSelect (run s evs) =
     (if phases evs = [] then isInChampSelect s else phase_member (last (phases evs)))"
proof (induction evs arbitrary: s)
  case Nil
  show ?case by simp
next
  case (Cons e evs)
  show ?case
  proof (cases "\<exists>ph. e = Message (PhaseChange ph)")
    case True
    then obtain ph where e: "e = Message (PhaseChange ph)" by blast
    show ?thesis
      by (simp add: e Cons.IH)
  next
    case False
    have "phases (e # evs) = phases evs"
    proof (cases e)
      case (Message p)
      then show ?thesis using False by (cases p) simp_all
    qed simp_all
    moreover from False have "isInChampSelect (step s e) = isInChampSelect s"
      by (auto simp: step_flag split: event.splits payload.splits)
    ultimately show ?thesis
      by (simp add: Cons.IH)
  qed
qed

text \<open>
  Claim C1. After any run of events the flag \<open>isInChampSelect\<close> says whether the last
  \<open>phase-change\<close> message of the run carried \<open>ChampSelect\<close> or \<open>FINALIZATION\<close> (with no
  such message it is what it was). An event during which the apply step runs, as its
  record on the console shows, starts and ends with the flag on. With the flag off before
  an event of the plugin, no element is written at all; with the flag off after it, every
  element is as it was or cleared, never decorated. In particular a timer that fires with
  the flag off writes no element and applies nothing.
\<close>

theorem apply_only_in_target_phase:
  "isInChampSelect (run s evs) =
     (if phases evs = [] then isInChampSelect s else phase_member (last (phases evs))) \<and>
   (logged shown_record (step s e) \<noteq> logged shown_record s \<longrightarrow>
      isInChampSelect s \<and> isInChampSelect (step s e)) \<and>
   (\<not> page_change e \<and> \<not> isInChampSelect s \<longrightarrow> elems (step s e) = elems s) \<and>
   (\<not> page_change e \<and> \<not> isInChampSelect (step s e) \<longrightarrow>
      kept_or_cleared (elems s) (elems (step s e))) \<and>
   (\<not> isInChampSelect s \<longrightarrow>
      elems (step s (Fire i)) = elems s \<and>
      logged shown_record (step s (Fire i)) = logged shown_record s)"
proof -
  have d: "elems (step s (Fire i)) = elems s \<and>
      logged shown_record (step s (Fire i)) = logged shown_record s" if "\<not> isInChampSelect s"
    using step_outside_elems [of "Fire i" s] step_shown [of s "Fire i"] that by auto
  show ?thesis
    using run_flag [of s evs] step_shown [of s e] step_outside_elems [of e s]
      step_exit_elems [of e s] d
    by blast
qed

subsection \<open>Waiting for the asset URL\<close>

lemma awaiting_url_timers [simp]: "awaiting_url b es el (s\<lparr>timers := ts\<rparr>) = awaiting_url b es el s"
  by (simp add: awaiting_url_def)

lemma record_eq [simp]:
  "((l, m) = shown_record) = (l = ''info'' \<and> m = ''Historic flag shown on rewards element'')"
  "((l, m) = retry_record) = (l = ''debug'' \<and> m = ''Rewards element not found, will retry'')"
  "((l, m) = giveup_record) =
     (l = ''warn'' \<and> m = ''Rewards element not found after 5 retries, giving up'')"
  by (auto simp: shown_record_def retry_record_def giveup_record_def)

lemma found_elems_waiting:
  "historicModeActive s \<Longrightarrow> historicFlagImageUrl s = None \<Longrightarrow>
   currentRewardsElement s = None \<or> currentRewardsElement s = Some e \<Longrightarrow>
   elems (found e s) = elems s"
  by (auto simp: found_def Let_def)

lemma update_awaiting:
  assumes a: "awaiting_url b es el s"
  shows "awaiting_url b es el (updateHistoricFlag s)"
    and "timers (updateHistoricFlag s) = timers s"
proof -
  let ?s1 = "snd (findRewardsElement s)"
  from a have ph: "isInChampSelect s" and loc: "locate (body s) (elems s) = Some el"
    by (simp_all add: awaiting_url_def)
  have u: "updateHistoricFlag s = found el ?s1"
    by (simp add: update_split [OF ph] loc)
  have ask: "asked ?s1"
    using a by (simp add: asked_def awaiting_url_def)
  have sh: "logged shown_record (found el ?s1) = logged shown_record s"
    using a by (simp add: found_logged_shown awaiting_url_def url_unset_def)
  have el: "elems (found el ?s1) = elems s"
    using a found_elems_waiting [of ?s1 el] by (auto simp: awaiting_url_def)
  show "awaiting_url b es el (updateHistoricFlag s)"
    unfolding u
    using a sh el found_asked [OF ask, of el]
    by (simp add: awaiting_url_def)
  show "timers (updateHistoricFlag s) = timers s"
    unfolding u by simp
qed

lemma url_arrives:
  assumes a: "awaiting_url b es el s" and u: "u \<noteq> []"
  shows "elems (handleLocalAssetUrl (Some HISTORIC_FLAG_ASSET_PATH) (Some u) s) =
           es(el := applyFlag u (es el))"
    and "logged shown_record (handleLocalAssetUrl (Some HISTORIC_FLAG_ASSET_PATH) (Some u) s) = 1"
    and "requests_emitted (handleLocalAssetUrl (Some HISTORIC_FLAG_ASSET_PATH) (Some u) s) = 1"
    and "historicFlagImageUrl (handleLocalAssetUrl (Some HISTORIC_FLAG_ASSET_PATH) (Some u) s) = Some u"
proof -
  let ?s2 = "log ''info'' ''Received historic flag image URL from Python''
      (s\<lparr>historicFlagImageUrl := Some u,
          pendingHistoricFlagRequest := (pendingHistoricFlagRequest s)(HISTORIC_FLAG_ASSET_PATH := None)\<rparr>)"
  let ?s3 = "snd (findRewardsElement ?s2)"
  from a have ph: "isInChampSelect s" and act: "historicModeActive s"
    and loc: "locate (body s) (elems s) = Some el"
    and es: "elems s = es"
    and cur: "currentRewardsElement s = None \<or> currentRewardsElement s = Some el"
    by (simp_all add: awaiting_url_def)
  have h: "handleLocalAssetUrl (Some HISTORIC_FLAG_ASSET_PATH) (Some u) s = updateHistoricFlag ?s2"
    using ph act u by (simp add: handleLocalAssetUrl_def url_unset_def Let_def)
  have ph2: "isInChampSelect ?s2" using ph by simp
  have up: "updateHistoricFlag ?s2 = found el ?s3"
    using loc by (simp add: update_split [OF ph2])
  have ask: "asked ?s2"
    using u by (simp add: asked_def url_unset_def)
  have "elems (found el ?s3) = (elems ?s3)(el := applyFlag u (elems ?s3 el))"
    by (rule found_elems_apply) (use act u cur in simp_all)
  then show "elems (handleLocalAssetUrl (Some HISTORIC_FLAG_ASSET_PATH) (Some u) s) =
           es(el := applyFlag u (es el))"
    by (simp add: h up es)
  show "logged shown_record (handleLocalAssetUrl (Some HISTORIC_FLAG_ASSET_PATH) (Some u) s) = 1"
    using a ph act loc u
    by (simp add: h update_shown url_unset_def awaiting_url_def)
  show "requests_emitted (handleLocalAssetUrl (Some HISTORIC_FLAG_ASSET_PATH) (Some u) s) = 1"
    using a by (simp add: h update_asked(1) [OF ask] awaiting_url_def)
  show "historicFlagImageUrl (handleLocalAssetUrl (Some HISTORIC_FLAG_ASSET_PATH) (Some u) s) = Some u"
    by (simp add: h)
qed

lemma init_view:
  "isInChampSelect (init (initial_state b es)) = False"
  "historicModeActive (init (initial_state b es)) = False"
  "body (init (initial_state b es)) = b"
  "elems (init (initial_state b es)) = es"
  "currentRewardsElement (init (initial_state b es)) = None"
  "timers (init (initial_state b es)) = []"
  "popup (init (initial_state b es)) = None"
  "retryCount (init (initial_state b es)) = None"
  "logged r (init (initial_state b es)) =
     (if (''info'', ''Initializing LU-HistoricMode plugin'') = r \<or>
         (''debug'', ''Requesting historic flag image from Python'') = r \<or>
         (''info'', ''LU-HistoricMode plugin initialized'') = r then 1 else 0)"
  by (auto simp: init_def initial_state_def requestHistoricFlagImage_def url_unset_def
      setupBridgeSocket_def logged_def log_def sendOrQueue_def)

lemma enter_phase:
  assumes "\<not> isInChampSelect s" "phase_member ph"
  shows "timers (handlePhaseChange ph s) =
           (if historicModeActive s then timers s @ [UpdateTimer 100] else timers s)"
    and "currentRewardsElement (handlePhaseChange ph s) = currentRewardsElement s"
    and "retryCount (handlePhaseChange ph s) = retryCount s"
  using assms by (simp_all add: handlePhaseChange_def Let_def)

lemma historic_state_timers:
  "timers (handleHistoricStateUpdate a None s) =
     (if a then timers s @ [UpdateTimer 100, UpdateTimer 1000] else timers s @ [UpdateTimer 100])"
  "popup (handleHistoricStateUpdate a None s) = None"
  "historicModeActive (handleHistoricStateUpdate a n s) = a"
  by (simp_all add: handleHistoricStateUpdate_def Let_def handleHistoricSkinNameUpdate_def
      removeHistoricSkinName_def)

lemma champ_select_member [simp]: "phase_member (Some ''ChampSelect'')"
  by (simp add: phase_member_def)

lemma scenario_awaiting:
  assumes "locate b es = Some el"
  shows "awaiting_url b es el
           (run (init (initial_state b es))
              [Message (PhaseChange (Some ''ChampSelect'')), Message (HistoricState True None)])"
    and "timers (run (init (initial_state b es))
              [Message (PhaseChange (Some ''ChampSelect'')), Message (HistoricState True None)]) =
           [UpdateTimer 100, UpdateTimer 1000]"
  using assms
  by (simp_all add: awaiting_url_def init_view init_asset enter_phase historic_state_timers
      handlePhaseChange_elems)

lemma fire_update_awaiting:
  assumes "awaiting_url b es el s" "timers s = UpdateTimer d # ts"
  shows "awaiting_url b es el (step s (Fire 0))" and "timers (step s (Fire 0)) = ts"
  using assms update_awaiting [of b es el "s\<lparr>timers := ts\<rparr>"]
  by (simp_all add: fire_def)





lemma scenario_run:
  assumes loc: "locate b es = Some el"
  shows "awaiting_url b es el
           (run (init (initial_state b es))
              [Message (PhaseChange (Some ''ChampSelect'')), Message (HistoricState True None),
               Fire 0, Fire 0])"
    and "timers (run (init (initial_state b es))
              [Message (PhaseChange (Some ''ChampSelect'')), Message (HistoricState True None),
               Fire 0, Fire 0]) = []"
proof -
  let ?s2 = "run (init (initial_state b es))
      [Message (PhaseChange (Some ''ChampSelect'')), Message (HistoricState True None)]"
  note a2 = scenario_awaiting [OF loc]
  note a3 = fire_update_awaiting [OF a2]
  note a4 = fire_update_awaiting [OF a3]
  have r: "run (init (initial_state b es))
      [Message (PhaseChange (Some ''ChampSelect'')), Message (HistoricState True None), Fire 0, Fire 0]
      = step (step ?s2 (Fire 0)) (Fire 0)"
    by simp
  show "awaiting_url b es el
           (run (init (initial_state b es))
              [Message (PhaseChange (Some ''ChampSelect'')), Message (HistoricState True None),
               Fire 0, Fire 0])"
    unfolding r by (rule a4(1))
  show "timers (run (init (initial_state b es))
              [Message (PhaseChange (Some ''ChampSelect'')), Message (HistoricState True None),
               Fire 0, Fire 0]) = []"
    unfolding r by (rule a4(2))
qed



lemma sample_located: "locate sample_body sample_elems = Some 1"
  by (simp add: locate_def findRewardsElement_def querySelector_def doc_nodes_def sample_body_def
      matches_def classList_contains_def sample_elems_def selected_item_def plain_icon_def
      REWARDS_SELECTOR_def INFO_CLASS_def REWARDS_CLASS_def initial_state_def)

lemma sample_url_nonempty: "sample_url \<noteq> []"
  by (simp add: sample_url_def)




lemma sample_waiting:
  "awaiting_url sample_body sample_elems 1 (run fresh waiting_run)"
  "timers (run fresh waiting_run) = []"
  unfolding fresh_def waiting_run_def
  by (rule scenario_run [OF sample_located])+

lemma sample_arrival:
  "elems (step (run fresh waiting_run) arrival) =
     sample_elems(1 := applyFlag sample_url (sample_elems 1))"
  "logged shown_record (step (run fresh waiting_run) arrival) = 1"
  "requests_emitted (step (run fresh waiting_run) arrival) = 1"
  using url_arrives [OF sample_waiting(1) sample_url_nonempty]
  by (simp_all add: arrival_def)




lemma leave_not_member: "\<not> phase_member (Some ''InProgress'')"
  by (simp add: phase_member_def)

theorem apply_only_in_target_phase_witness:
  "logged shown_record (step (run fresh waiting_run) arrival) \<noteq>
     logged shown_record (run fresh waiting_run) \<and>
   isInChampSelect (run fresh waiting_run) \<and>
   isInChampSelect (step (run fresh waiting_run) arrival) \<and>
   phases waiting_run = [Some ''ChampSelect''] \<and>
   \<not> page_change (Fire 0) \<and> \<not> isInChampSelect fresh \<and>
   elems (step fresh (Fire 0)) = elems fresh \<and>
   \<not> page_change leave \<and> \<not> isInChampSelect (step (run fresh waiting_run) leave) \<and>
   kept_or_cleared (elems (run fresh waiting_run)) (elems (step (run fresh waiting_run) leave))"
proof -
  have n: "logged shown_record (step (run fresh waiting_run) arrival) \<noteq>
     logged shown_record (run fresh waiting_run)"
    using sample_arrival(2) sample_waiting(1) by (simp add: awaiting_url_def)
  from apply_only_in_target_phase [of "run fresh waiting_run" "[]" arrival] n
  have a: "isInChampSelect (run fresh waiting_run)"
    "isInChampSelect (step (run fresh waiting_run) arrival)"
    by blast+
  have f: "\<not> isInChampSelect fresh"
    by (simp add: fresh_def init_view)
  from apply_only_in_target_phase [of fresh "[]" "Fire 0" 0] f
  have b: "elems (step fresh (Fire 0)) = elems fresh"
    by simp
  have l: "\<not> isInChampSelect (step (run fresh waiting_run) leave)"
    by (simp add: leave_def leave_not_member)
  from apply_only_in_target_phase [of "run fresh waiting_run" "[]" leave] l
  have c: "kept_or_cleared (elems (run fresh waiting_run)) (elems (step (run fresh waiting_run) leave))"
    by (simp add: leave_def)
  have p: "phases waiting_run = [Some ''ChampSelect'']"
    by (simp add: waiting_run_def)
  show ?thesis
    using n a b c f l p by (simp add: leave_def)
qed

section \<open>The bounded retry\<close>

subsection \<open>The retry campaign\<close>

lemma retry_value_frames [simp]:
  "retry_value (snd (findRewardsElement s)) = retry_value s"
  "retry_value (s\<lparr>timers := ts\<rparr>) = retry_value s"
  by (simp_all add: retry_value_def)

lemma own_records [simp]: "own_record retry_record" "own_record giveup_record"
  by (simp_all add: own_record_def)

lemma update_not_found:
  assumes ph: "isInChampSelect s" and loc: "locate (body s) (elems s) = None"
  shows "isInChampSelect (updateHistoricFlag s)"
    and "body (updateHistoricFlag s) = body s"
    and "elems (updateHistoricFlag s) = elems s"
    and "logged retry_record (updateHistoricFlag s) = Suc (logged retry_record s)"
    and "retry_value s < 5 \<Longrightarrow> retryCount (updateHistoricFlag s) = Some (Suc (retry_value s))"
    and "retry_value s < 5 \<Longrightarrow> timers (updateHistoricFlag s) = timers s @ [RetryTimer]"
    and "retry_value s < 5 \<Longrightarrow> logged giveup_record (updateHistoricFlag s) = logged giveup_record s"
    and "5 \<le> retry_value s \<Longrightarrow> retryCount (updateHistoricFlag s) = Some 0"
    and "5 \<le> retry_value s \<Longrightarrow> timers (updateHistoricFlag s) = timers s"
    and "5 \<le> retry_value s \<Longrightarrow> logged giveup_record (updateHistoricFlag s) = Suc (logged giveup_record s)"
proof -
  let ?s1 = "snd (findRewardsElement s)"
  have u: "updateHistoricFlag s = notFound ?s1"
    by (simp add: update_split [OF ph] loc)
  have ph1: "isInChampSelect ?s1" using ph by simp
  show "isInChampSelect (updateHistoricFlag s)" "body (updateHistoricFlag s) = body s"
    "elems (updateHistoricFlag s) = elems s"
    using ph by (simp_all add: u)
  show "logged retry_record (updateHistoricFlag s) = Suc (logged retry_record s)"
  proof (cases "retry_value s < 5")
    case True
    then show ?thesis using notFound_retry(3) [OF ph1] by (simp add: u)
  next
    case False
    then show ?thesis using notFound_giveup(3) [OF ph1] by (simp add: u)
  qed
  show "retryCount (updateHistoricFlag s) = Some (Suc (retry_value s))" if "retry_value s < 5"
    using notFound_retry(1) [OF ph1] that by (simp add: u)
  show "timers (updateHistoricFlag s) = timers s @ [RetryTimer]" if "retry_value s < 5"
    using notFound_retry(2) [OF ph1] that by (simp add: u)
  show "logged giveup_record (updateHistoricFlag s) = logged giveup_record s" if "retry_value s < 5"
    using notFound_retry(4) [OF ph1] that by (simp add: u)
  show "retryCount (updateHistoricFlag s) = Some 0" if "5 \<le> retry_value s"
    using notFound_giveup(1) [OF ph1] that by (simp add: u)
  show "timers (updateHistoricFlag s) = timers s" if "5 \<le> retry_value s"
    using notFound_giveup(2) [OF ph1] that by (simp add: u)
  show "logged giveup_record (updateHistoricFlag s) = Suc (logged giveup_record s)" if "5 \<le> retry_value s"
    using notFound_giveup(4) [OF ph1] that by (simp add: u)
qed

lemma fire_retry:
  "isInChampSelect s \<Longrightarrow> timers s = [RetryTimer] \<Longrightarrow>
   step s (Fire 0) = updateHistoricFlag (s\<lparr>timers := []\<rparr>)"
  by (simp add: fire_def retryCallback_def)

lemma run_replicate_Suc: "run s (replicate (Suc k) e) = step (run s (replicate k e)) e"
  by (metis replicate_Suc replicate_append_same run_snoc)

lemma campaign:
  assumes ph: "isInChampSelect s" and loc: "locate (body s) (elems s) = None"
    and r0: "retry_value s = 0" and t0: "timers s = []"
  shows "k \<le> 5 \<Longrightarrow>
     isInChampSelect (run (updateHistoricFlag s) (replicate k (Fire 0))) \<and>
     body (run (updateHistoricFlag s) (replicate k (Fire 0))) = body s \<and>
     elems (run (updateHistoricFlag s) (replicate k (Fire 0))) = elems s \<and>
     logged retry_record (run (updateHistoricFlag s) (replicate k (Fire 0))) =
       logged retry_record s + k + 1 \<and>
     timers (run (updateHistoricFlag s) (replicate k (Fire 0))) =
       (if k < 5 then [RetryTimer] else []) \<and>
     retryCount (run (updateHistoricFlag s) (replicate k (Fire 0))) =
       Some (if k < 5 then k + 1 else 0) \<and>
     logged giveup_record (run (updateHistoricFlag s) (replicate k (Fire 0))) =
       logged giveup_record s + (if k < 5 then 0 else 1)"
proof (induction k)
  case 0
  show ?case
    using update_not_found [OF ph loc] r0 t0 by simp
next
  case (Suc k)
  let ?t = "run (updateHistoricFlag s) (replicate k (Fire 0))"
  let ?u = "?t\<lparr>timers := []\<rparr>"
  from Suc have k: "k < 5" by simp
  then have k5: "k \<le> 5" by simp
  note ih0 = Suc.IH [OF k5]
  have ih: "isInChampSelect ?t" "body ?t = body s" "elems ?t = elems s"
    "logged retry_record ?t = logged retry_record s + k + 1"
    "timers ?t = [RetryTimer]" "retryCount ?t = Some (k + 1)"
    "logged giveup_record ?t = logged giveup_record s"
  proof -
    from ih0 show "isInChampSelect ?t" by blast
    from ih0 show "body ?t = body s" by blast
    from ih0 show "elems ?t = elems s" by blast
    from ih0 show "logged retry_record ?t = logged retry_record s + k + 1" by blast
    from ih0 k show "timers ?t = [RetryTimer]" by simp
    from ih0 k show "retryCount ?t = Some (k + 1)" by simp
    from ih0 k show "logged giveup_record ?t = logged giveup_record s" by simp
  qed
  have r: "run (updateHistoricFlag s) (replicate (Suc k) (Fire 0)) = updateHistoricFlag ?u"
    using fire_retry [OF ih(1) ih(5)] by (simp only: run_replicate_Suc)
  have ph': "isInChampSelect ?u" and loc': "locate (body ?u) (elems ?u) = None"
    using ih loc by simp_all
  have rv: "retry_value ?u = k + 1"
    using ih(6) by (simp add: retry_value_def)
  note up = update_not_found [OF ph' loc']
  show ?case
  proof (cases "Suc k < 5")
    case True
    then have "retry_value ?u < 5" using rv by simp
    with up ih rv True show ?thesis
      unfolding r by simp
  next
    case False
    with k have "5 \<le> retry_value ?u" using rv by simp
    with up ih rv False show ?thesis
      unfolding r by simp
  qed
qed

lemma fire_idle: "timers s = [] \<Longrightarrow> run s (replicate j (Fire i)) = s"
  by (induction j) (simp_all add: fire_def)

lemma campaign_over:
  assumes ph: "isInChampSelect s" and loc: "locate (body s) (elems s) = None"
    and r0: "retry_value s = 0" and t0: "timers s = []"
  shows "run (updateHistoricFlag s) (replicate (5 + j) (Fire 0)) =
         run (updateHistoricFlag s) (replicate 5 (Fire 0))"
proof -
  have t: "timers (run (updateHistoricFlag s) (replicate 5 (Fire 0))) = []"
    using campaign [OF assms, of 5] by simp
  show ?thesis
    by (simp only: replicate_add run_append fire_idle [OF t])
qed

lemma update_found_resets:
  "isInChampSelect s \<Longrightarrow> locate (body s) (elems s) = Some e \<Longrightarrow>
   retryCount (updateHistoricFlag s) = Some 0"
  by (simp add: update_split)

lemma leave_phase:
  assumes "\<not> phase_member ph"
  shows "retry_value (handlePhaseChange ph s) = (if isInChampSelect s then 0 else retry_value s)"
    and "timers (handlePhaseChange ph s) = timers s"
  using assms
  by (auto simp: handlePhaseChange_def Let_def retry_value_def hideFlagOnElement_def
      split: option.splits)

lemma stale_retry:
  "\<not> isInChampSelect s \<Longrightarrow> i < length (timers s) \<Longrightarrow> timers s ! i = RetryTimer \<Longrightarrow>
   retryCount (step s (Fire i)) = Some 0"
  by (simp add: fire_def retryCallback_def)

text \<open>
  Claim C2. Take the plugin in the target phase, on a page without the target element,
  with the retry counter at 0 and no timer pending, and call \<open>updateHistoricFlag\<close>. The
  call and each of the first four firings of the retry timer record one failed attempt and
  leave the counter one higher and one retry timer pending; the fifth firing records the
  sixth failed attempt, gives up with its warning, resets the counter to 0 and leaves no
  timer, so that nothing more happens however often a timer is asked to fire. The counter
  is also 0 after a synchronization that finds the element, reads as 0 after a
  \<open>phase-change\<close> out of the target phase, and is set to 0 by a retry timer that fires
  when the flag is off.
\<close>

theorem retry_bound:
  "(isInChampSelect s \<and> locate (body s) (elems s) = None \<and> retry_value s = 0 \<and> timers s = [] \<and>
    k \<le> 5 \<longrightarrow>
      logged retry_record (run (updateHistoricFlag s) (replicate k (Fire 0))) =
        logged retry_record s + k + 1 \<and>
      timers (run (updateHistoricFlag s) (replicate k (Fire 0))) =
        (if k < 5 then [RetryTimer] else []) \<and>
      retryCount (run (updateHistoricFlag s) (replicate k (Fire 0))) =
        Some (if k < 5 then k + 1 else 0) \<and>
      logged giveup_record (run (updateHistoricFlag s) (replicate k (Fire 0))) =
        logged giveup_record s + (if k < 5 then 0 else 1) \<and>
      run (updateHistoricFlag s) (replicate (5 + j) (Fire 0)) =
        run (updateHistoricFlag s) (replicate 5 (Fire 0))) \<and>
   (isInChampSelect s \<and> locate (body s) (elems s) = Some e \<longrightarrow>
      retryCount (updateHistoricFlag s) = Some 0) \<and>
   (isInChampSelect s \<and> \<not> phase_member ph \<longrightarrow>
      retry_value (step s (Message (PhaseChange ph))) = 0) \<and>
   (\<not> isInChampSelect s \<and> i < length (timers s) \<and> timers s ! i = RetryTimer \<longrightarrow>
      retryCount (step s (Fire i)) = Some 0)"
proof -
  have a: "logged retry_record (run (updateHistoricFlag s) (replicate k (Fire 0))) =
        logged retry_record s + k + 1 \<and>
      timers (run (updateHistoricFlag s) (replicate k (Fire 0))) =
        (if k < 5 then [RetryTimer] else []) \<and>
      retryCount (run (updateHistoricFlag s) (replicate k (Fire 0))) =
        Some (if k < 5 then k + 1 else 0) \<and>
      logged giveup_record (run (updateHistoricFlag s) (replicate k (Fire 0))) =
        logged giveup_record s + (if k < 5 then 0 else 1) \<and>
      run (updateHistoricFlag s) (replicate (5 + j) (Fire 0)) =
        run (updateHistoricFlag s) (replicate 5 (Fire 0))"
    if h: "isInChampSelect s \<and> locate (body s) (elems s) = None \<and> retry_value s = 0 \<and>
           timers s = [] \<and> k \<le> 5"
  proof -
    from h have ph: "isInChampSelect s" and loc: "locate (body s) (elems s) = None"
      and r0: "retry_value s = 0" and t0: "timers s = []" and k: "k \<le> 5"
      by simp_all
    show ?thesis
      using campaign [OF ph loc r0 t0 k] campaign_over [OF ph loc r0 t0, of j] by simp
  qed
  have b: "retry_value (step s (Message (PhaseChange ph))) = 0"
    if "isInChampSelect s \<and> \<not> phase_member ph"
    using that by (simp add: leave_phase)
  show ?thesis
    using a b update_found_resets [of s e] stale_retry [of s i] by blast
qed

lemma bare_not_located: "locate sample_body bare_elems = None"
  by (simp add: locate_def findRewardsElement_def querySelector_def querySelectorAll_def
      doc_nodes_def sample_body_def matches_def classList_contains_def bare_elems_def
      selected_item_def REWARDS_SELECTOR_def INFO_CLASS_def REWARDS_CLASS_def initial_state_def)

lemma entered_bare_view:
  "isInChampSelect entered_bare" "body entered_bare = sample_body" "elems entered_bare = bare_elems"
  "retry_value entered_bare = 0" "timers entered_bare = []"
  by (simp_all add: entered_bare_def enter_def fresh_bare_def init_view enter_phase
      handlePhaseChange_elems retry_value_def)

lemma entered_view:
  "isInChampSelect entered" "body entered = sample_body" "elems entered = sample_elems"
  by (simp_all add: entered_def enter_def fresh_def init_view handlePhaseChange_elems)

theorem retry_bound_witness:
  "isInChampSelect entered_bare \<and> locate (body entered_bare) (elems entered_bare) = None \<and>
   retry_value entered_bare = 0 \<and> timers entered_bare = [] \<and>
   logged retry_record (run (updateHistoricFlag entered_bare) (replicate 5 (Fire 0))) =
     logged retry_record entered_bare + 6 \<and>
   timers (run (updateHistoricFlag entered_bare) (replicate 5 (Fire 0))) = [] \<and>
   retryCount (run (updateHistoricFlag entered_bare) (replicate 5 (Fire 0))) = Some 0 \<and>
   logged giveup_record (run (updateHistoricFlag entered_bare) (replicate 5 (Fire 0))) =
     logged giveup_record entered_bare + 1 \<and>
   run (updateHistoricFlag entered_bare) (replicate 8 (Fire 0)) =
     run (updateHistoricFlag entered_bare) (replicate 5 (Fire 0)) \<and>
   isInChampSelect entered \<and> locate (body entered) (elems entered) = Some 1 \<and>
   retryCount (updateHistoricFlag entered) = Some 0 \<and>
   isInChampSelect (updateHistoricFlag entered_bare) \<and> \<not> phase_member (Some ''InProgress'') \<and>
   retryCount (updateHistoricFlag entered_bare) = Some 1 \<and>
   retry_value (step (updateHistoricFlag entered_bare) leave) = 0 \<and>
   \<not> isInChampSelect (step (updateHistoricFlag entered_bare) leave) \<and>
   timers (step (updateHistoricFlag entered_bare) leave) = [RetryTimer] \<and>
   retryCount (step (step (updateHistoricFlag entered_bare) leave) (Fire 0)) = Some 0"
proof -
  have loc: "locate (body entered_bare) (elems entered_bare) = None"
    by (simp add: entered_bare_view bare_not_located)
  note h = entered_bare_view(1) loc entered_bare_view(4,5)
  from retry_bound [of entered_bare 5 3] h
  have a: "logged retry_record (run (updateHistoricFlag entered_bare) (replicate 5 (Fire 0))) =
     logged retry_record entered_bare + 6"
    "timers (run (updateHistoricFlag entered_bare) (replicate 5 (Fire 0))) = []"
    "retryCount (run (updateHistoricFlag entered_bare) (replicate 5 (Fire 0))) = Some 0"
    "logged giveup_record (run (updateHistoricFlag entered_bare) (replicate 5 (Fire 0))) =
     logged giveup_record entered_bare + 1"
    "run (updateHistoricFlag entered_bare) (replicate 8 (Fire 0)) =
     run (updateHistoricFlag entered_bare) (replicate 5 (Fire 0))"
    by simp_all
  have loc1: "locate (body entered) (elems entered) = Some 1"
    by (simp add: entered_view sample_located)
  from retry_bound [of entered _ _ 1] entered_view(1) loc1
  have b: "retryCount (updateHistoricFlag entered) = Some 0"
    by blast
  note up = update_not_found [OF entered_bare_view(1) loc]
  have c1: "isInChampSelect (updateHistoricFlag entered_bare)"
    by (rule up(1))
  have c2: "retryCount (updateHistoricFlag entered_bare) = Some 1"
    using up(5) entered_bare_view(4) by simp
  have c3: "timers (updateHistoricFlag entered_bare) = [RetryTimer]"
    using up(6) entered_bare_view(4,5) by simp
  from retry_bound [of "updateHistoricFlag entered_bare" _ _ _ "Some ''InProgress''"] c1 leave_not_member
  have c: "retry_value (step (updateHistoricFlag entered_bare) leave) = 0"
    by (simp add: leave_def)
  have d1: "\<not> isInChampSelect (step (updateHistoricFlag entered_bare) leave)"
    by (simp add: leave_def leave_not_member)
  have d2: "timers (step (updateHistoricFlag entered_bare) leave) = [RetryTimer]"
    using leave_phase(2) [OF leave_not_member] c3 by (simp add: leave_def)
  from retry_bound [of "step (updateHistoricFlag entered_bare) leave" _ _ _ _ 0] d1 d2
  have d: "retryCount (step (step (updateHistoricFlag entered_bare) leave) (Fire 0)) = Some 0"
    by simp
  show ?thesis
    using h a b c c1 c2 d d1 d2 loc1 entered_view(1) leave_not_member by simp
qed

section \<open>The floating label\<close>

subsection \<open>The label\<close>

lemma showSkinName_popup:
  "popup (showSkinName n s) =
     Some \<lparr>pid = (case popup s of None \<Rightarrow> popupSeq s | Some old \<Rightarrow> pid old), ptext = n\<rparr>"
  "timers (showSkinName n s) =
     filter (\<lambda>t. t \<noteq> PopupTimer (case popup s of None \<Rightarrow> popupSeq s | Some old \<Rightarrow> pid old)) (timers s) @
     [PopupTimer (case popup s of None \<Rightarrow> popupSeq s | Some old \<Rightarrow> pid old)]"
  by (simp_all add: showSkinName_def resetTimer_def split: option.splits)

lemma name_update_popup:
  "n \<noteq> [] \<Longrightarrow> n \<noteq> ''None'' \<Longrightarrow>
   handleHistoricSkinNameUpdate (Some n) s = showSkinName n s"
  "handleHistoricSkinNameUpdate None s = removeHistoricSkinName s"
  "handleHistoricSkinNameUpdate (Some []) s = removeHistoricSkinName s"
  "handleHistoricSkinNameUpdate (Some ''None'') s = removeHistoricSkinName s"
  by (simp_all add: handleHistoricSkinNameUpdate_def)

lemma historic_state_label:
  "popup (handleHistoricStateUpdate a n s) = popup (handleHistoricSkinNameUpdate n s)"
  "timers (handleHistoricStateUpdate a n s) =
     timers (handleHistoricSkinNameUpdate n s) @ [UpdateTimer 100] @
     (if a then [UpdateTimer 1000] else [])"
  by (simp_all add: handleHistoricStateUpdate_def Let_def)

lemma update_popup:
  "popup (updateHistoricFlag s) =
     (if isInChampSelect s \<and> locate (body s) (elems s) = None then None else popup s)"
proof (cases "isInChampSelect s")
  case False
  then show ?thesis by (simp add: update_outside)
next
  case True
  show ?thesis
    unfolding update_split [OF True]
    using True find_fst [of s] by (simp add: find_popup split: option.splits)
qed

lemma timerCallback_popup:
  "popup (timerCallback t s) = popup s \<or> popup (timerCallback t s) = None"
  by (cases t) (auto simp: update_popup retryCallback_def popupExpire_def split: option.splits)

lemma step_popup:
  assumes "\<not> is_historic_state e"
  shows "popup (step s e) = popup s \<or> popup (step s e) = None"
proof (cases e)
  case (Message p)
  with assms show ?thesis
    by (cases p) (auto simp: handleLocalAssetUrl_def Let_def update_popup)
next
  case (Fire i)
  with timerCallback_popup [of "timers s ! i" "s\<lparr>timers := take i (timers s) @ drop (Suc i) (timers s)\<rparr>"]
  show ?thesis by (simp add: fire_def)
next
  case Mutation
  then show ?thesis by (auto simp: mutationCallback_def update_popup)
qed simp_all

text \<open>
  Claim C9, as the code has it. A \<open>historic-state\<close> message with a name that is neither
  empty nor \<open>None\<close> leaves the label showing that name, the same label as before when
  there was one, with its expiry timer cleared and set anew; a message with no name, an
  empty name or the name \<open>None\<close> leaves no label. Element discovery does touch the
  label: \<open>findRewardsElement\<close> removes it when it runs in the target phase and finds no
  element, and leaves it and the timers alone otherwise. No event but a
  \<open>historic-state\<close> message creates or updates the label: after any other event the
  label is what it was, or gone.
\<close>

theorem label_follows_historic_state_amended:
  "(n \<noteq> [] \<and> n \<noteq> ''None'' \<longrightarrow>
      popup (step s (Message (HistoricState a (Some n)))) =
        Some \<lparr>pid = (case popup s of None \<Rightarrow> popupSeq s | Some old \<Rightarrow> pid old), ptext = n\<rparr> \<and>
      timers (step s (Message (HistoricState a (Some n)))) =
        filter (\<lambda>t. t \<noteq> PopupTimer (case popup s of None \<Rightarrow> popupSeq s | Some old \<Rightarrow> pid old))
          (timers s) @
        [PopupTimer (case popup s of None \<Rightarrow> popupSeq s | Some old \<Rightarrow> pid old), UpdateTimer 100] @
        (if a then [UpdateTimer 1000] else [])) \<and>
   popup (step s (Message (HistoricState a None))) = None \<and>
   popup (step s (Message (HistoricState a (Some [])))) = None \<and>
   popup (step s (Message (HistoricState a (Some ''None'')))) = None \<and>
   popup (snd (findRewardsElement s)) =
     (if isInChampSelect s \<and> fst (findRewardsElement s) = None then None else popup s) \<and>
   timers (snd (findRewardsElement s)) = timers s \<and>
   (\<not> is_historic_state e \<longrightarrow> popup (step s e) = popup s \<or> popup (step s e) = None)"
proof -
  have a: "popup (step s (Message (HistoricState a (Some n)))) =
        Some \<lparr>pid = (case popup s of None \<Rightarrow> popupSeq s | Some old \<Rightarrow> pid old), ptext = n\<rparr> \<and>
      timers (step s (Message (HistoricState a (Some n)))) =
        filter (\<lambda>t. t \<noteq> PopupTimer (case popup s of None \<Rightarrow> popupSeq s | Some old \<Rightarrow> pid old))
          (timers s) @
        [PopupTimer (case popup s of None \<Rightarrow> popupSeq s | Some old \<Rightarrow> pid old), UpdateTimer 100] @
        (if a then [UpdateTimer 1000] else [])"
    if "n \<noteq> [] \<and> n \<noteq> ''None''"
    using that by (simp add: historic_state_label name_update_popup showSkinName_popup)
  have b: "popup (step s (Message (HistoricState a None))) = None"
    "popup (step s (Message (HistoricState a (Some [])))) = None"
    "popup (step s (Message (HistoricState a (Some ''None'')))) = None"
    by (simp_all add: historic_state_label name_update_popup removeHistoricSkinName_def)
  show ?thesis
    using a b find_popup [of s] step_popup [of e s] by simp
qed

lemma init_popupSeq: "popupSeq (init (initial_state b es)) = 0"
  by (simp add: init_def initial_state_def)

lemma entered_label:
  "popup entered_bare = None" "popupSeq entered_bare = 0"
  "popup entered = None" "popupSeq entered = 0" "timers entered = []"
  by (simp_all add: entered_bare_def entered_def enter_def fresh_bare_def fresh_def init_view
      init_popupSeq enter_phase)

lemma dark_star: "''Dark Star'' \<noteq> []" "''Dark Star'' \<noteq> ''None''"
  by simp_all

lemma named_bare:
  "popup (step entered_bare named) = Some \<lparr>pid = 0, ptext = ''Dark Star''\<rparr>"
  "timers (step entered_bare named) = [PopupTimer 0, UpdateTimer 100, UpdateTimer 1000]"
  "isInChampSelect (step entered_bare named)"
  "locate (body (step entered_bare named)) (elems (step entered_bare named)) = None"
  by (simp_all add: named_def historic_state_label name_update_popup showSkinName_popup
      entered_label entered_bare_view bare_not_located)

text \<open>
  The claim as written fails on a page without the rewards icon: the client is in champion
  select, a \<open>historic-state\<close> message names a skin and the label appears; the first
  synchronization timer fires, the element is not found, and the label is gone.
\<close>

theorem label_removed_by_failed_discovery:
  "popup (run fresh_bare [enter, named]) = Some \<lparr>pid = 0, ptext = ''Dark Star''\<rparr> \<and>
   timers (run fresh_bare [enter, named]) = [PopupTimer 0, UpdateTimer 100, UpdateTimer 1000] \<and>
   fst (findRewardsElement (run fresh_bare [enter, named])) = None \<and>
   popup (snd (findRewardsElement (run fresh_bare [enter, named]))) = None \<and>
   popup (run fresh_bare [enter, named, Fire 1]) = None"
proof -
  have r: "run fresh_bare [enter, named] = step entered_bare named"
    "run fresh_bare [enter, named, Fire 1] = step (step entered_bare named) (Fire 1)"
    by (simp_all add: entered_bare_def)
  have f: "fst (findRewardsElement (step entered_bare named)) = None"
    by (simp add: find_fst named_bare)
  have p: "popup (snd (findRewardsElement (step entered_bare named))) = None"
    by (simp add: find_popup f named_bare)
  have g: "popup (step (step entered_bare named) (Fire 1)) = None"
    by (simp add: fire_def named_bare update_popup)
  show ?thesis
    unfolding r using named_bare(1,2) f p g by simp
qed

lemma named_sample:
  "popup (step entered named) = Some \<lparr>pid = 0, ptext = ''Dark Star''\<rparr>"
  "timers (step entered named) = [PopupTimer 0, UpdateTimer 100, UpdateTimer 1000]"
  "isInChampSelect (step entered named)"
  "locate (body (step entered named)) (elems (step entered named)) = Some 1"
  by (simp_all add: named_def historic_state_label name_update_popup showSkinName_popup
      entered_label entered_view sample_located)

theorem label_follows_historic_state_witness:
  "''Dark Star'' \<noteq> [] \<and> ''Dark Star'' \<noteq> ''None'' \<and>
   popup (step entered named) = Some \<lparr>pid = 0, ptext = ''Dark Star''\<rparr> \<and>
   timers (step entered named) = [PopupTimer 0, UpdateTimer 100, UpdateTimer 1000] \<and>
   popup (step (step entered named) (Message (HistoricState True (Some ''None'')))) = None \<and>
   \<not> is_historic_state (Fire 1) \<and>
   popup (step (step entered named) (Fire 1)) = Some \<lparr>pid = 0, ptext = ''Dark Star''\<rparr> \<and>
   \<not> is_historic_state PopupClose \<and>
   popup (step (step entered named) PopupClose) = None"
proof -
  from label_follows_historic_state_amended [of "''Dark Star''" entered True Mutation] dark_star
  have a: "popup (step entered named) = Some \<lparr>pid = 0, ptext = ''Dark Star''\<rparr>"
    "timers (step entered named) = [PopupTimer 0, UpdateTimer 100, UpdateTimer 1000]"
    by (simp_all add: named_def entered_label)
  from label_follows_historic_state_amended [of _ "step entered named" True PopupClose]
  have b: "popup (step (step entered named) (Message (HistoricState True (Some ''None'')))) = None"
    by blast
  have c: "popup (step (step entered named) (Fire 1)) = Some \<lparr>pid = 0, ptext = ''Dark Star''\<rparr>"
    by (simp add: fire_def named_sample update_popup)
  from label_follows_historic_state_amended [of _ "step entered named" True PopupClose]
  have d: "popup (step (step entered named) PopupClose) = popup (step entered named) \<or>
     popup (step (step entered named) PopupClose) = None"
    by simp
  have e: "popup (step (step entered named) PopupClose) = None"
    by simp
  show ?thesis
    using a b c e by simp
qed

section \<open>The outbound frames of a session\<close>

subsection \<open>The outbound frames over a session\<close>

lemma extends_outbound_update [simp]:
  "extends_outbound s (t\<lparr>console := x4\<rparr>) = extends_outbound s t"
  "extends_outbound s (t\<lparr>historicModeActive := x5\<rparr>) = extends_outbound s t"
  "extends_outbound s (t\<lparr>currentRewardsElement := x6\<rparr>) = extends_outbound s t"
  "extends_outbound s (t\<lparr>historicFlagImageUrl := x7\<rparr>) = extends_outbound s t"
  "extends_outbound s (t\<lparr>pendingHistoricFlagRequest := x8\<rparr>) = extends_outbound s t"
  "extends_outbound s (t\<lparr>isInChampSelect := x9\<rparr>) = extends_outbound s t"
  "extends_outbound s (t\<lparr>retryCount := x10\<rparr>) = extends_outbound s t"
  "extends_outbound s (t\<lparr>timers := x11\<rparr>) = extends_outbound s t"
  "extends_outbound s (t\<lparr>body := x12\<rparr>) = extends_outbound s t"
  "extends_outbound s (t\<lparr>elems := x13\<rparr>) = extends_outbound s t"
  "extends_outbound s (t\<lparr>popup := x14\<rparr>) = extends_outbound s t"
  "extends_outbound s (t\<lparr>popupSeq := x15\<rparr>) = extends_outbound s t"
  "extends_outbound s (t\<lparr>wsThrows := x16\<rparr>) = extends_outbound s t"
  by (simp_all add: extends_outbound_def outbound_def flushed_when_open_def)

lemma extends_outbound_refl: "flushed_when_open s \<Longrightarrow> extends_outbound s s"
  by (simp add: extends_outbound_def)

lemma outbound_sendOrQueue:
  "flushed_when_open t \<Longrightarrow> outbound (sendOrQueue m t) = outbound t @ [m]"
  "flushed_when_open t \<Longrightarrow> flushed_when_open (sendOrQueue m t)"
  by (auto simp: outbound_def flushed_when_open_def sendOrQueue_def split: if_splits)

lemma extends_sendOrQueue [simp]:
  assumes "extends_outbound s t"
  shows "extends_outbound s (sendOrQueue m t)"
proof -
  from assms obtain ms where k: "flushed_when_open t" and o: "outbound t = outbound s @ ms"
    by (auto simp: extends_outbound_def)
  have "outbound (sendOrQueue m t) = outbound s @ (ms @ [m])"
    by (simp add: outbound_sendOrQueue(1) [OF k] o)
  then show ?thesis
    unfolding extends_outbound_def using outbound_sendOrQueue(2) [OF k] by blast
qed

lemma extends_log [simp]: "extends_outbound s t \<Longrightarrow> extends_outbound s (log l m t)"
  by (simp add: log_def)

lemma extends_silent [simp]:
  "extends_outbound s (hideFlagOnElement el t) = extends_outbound s t"
  "extends_outbound s (removeHistoricSkinName t) = extends_outbound s t"
  "extends_outbound s (resetTimer p t) = extends_outbound s t"
  "extends_outbound s (showSkinName n t) = extends_outbound s t"
  "extends_outbound s (handleHistoricSkinNameUpdate nm t) = extends_outbound s t"
  "extends_outbound s (popupExpire p t) = extends_outbound s t"
  "extends_outbound s (scheduleBridgeRetry t) = extends_outbound s t"
  by (simp_all add: extends_outbound_def outbound_def flushed_when_open_def)

lemma extends_find [simp]:
  "extends_outbound s t \<Longrightarrow> extends_outbound s (snd (findRewardsElement t))"
  by (simp add: findRewardsElement_def split: option.splits)

lemma extends_request [simp]:
  "extends_outbound s t \<Longrightarrow> extends_outbound s (requestHistoricFlagImage t)"
  by (simp add: requestHistoricFlagImage_def)

lemma extends_notFound [simp]: "extends_outbound s t \<Longrightarrow> extends_outbound s (notFound t)"
  by (simp add: notFound_def Let_def split: option.splits)

lemma extends_found [simp]: "extends_outbound s t \<Longrightarrow> extends_outbound s (found e t)"
  by (simp add: found_def Let_def split: option.splits)

lemma extends_update [simp]:
  "extends_outbound s t \<Longrightarrow> extends_outbound s (updateHistoricFlag t)"
  by (simp add: updateHistoricFlag_def case_prod_beta split: option.splits)

lemma extends_handlers [simp]:
  assumes "extends_outbound s t"
  shows "extends_outbound s (retryCallback t)"
    and "extends_outbound s (mutationCallback t)"
    and "extends_outbound s (handlePhaseChange ph t)"
    and "extends_outbound s (handleLocalAssetUrl p u t)"
    and "extends_outbound s (handleHistoricStateUpdate a nm t)"
  using assms
  by (simp_all add: retryCallback_def mutationCallback_def handlePhaseChange_def
      handleLocalAssetUrl_def handleHistoricStateUpdate_def Let_def split: option.splits)

lemma extends_message: "extends_outbound s t \<Longrightarrow> extends_outbound s (handleBridgeMessage p t)"
  by (cases p) simp_all

lemma extends_not_open:
  "extends_outbound s t \<Longrightarrow> c \<noteq> Some OPEN \<Longrightarrow> extends_outbound s (t\<lparr>bridgeSocket := c\<rparr>)"
  by (simp add: extends_outbound_def outbound_def flushed_when_open_def)

lemma extends_not_ready:
  "extends_outbound s t \<Longrightarrow> extends_outbound s (t\<lparr>bridgeReady := False\<rparr>)"
  by (simp add: extends_outbound_def outbound_def flushed_when_open_def)

lemma extends_setup:
  "extends_outbound s t \<Longrightarrow> extends_outbound s (setupBridgeSocket t)"
  by (simp add: setupBridgeSocket_def extends_not_open)

lemma extends_timer: "extends_outbound s t \<Longrightarrow> extends_outbound s (timerCallback tm t)"
  by (cases tm) (simp_all add: bridgeRetryCallback_def extends_setup)

lemma extends_open:
  assumes "flushed_when_open s" "bridgeSocket s = Some CONNECTING" "\<not> bridgeReady s"
  shows "extends_outbound s (step s SocketOpen)"
  using assms
  by (simp add: extends_outbound_def outbound_def flushed_when_open_def onopen_def
      flushBridgeQueue_def log_def sendOrQueue_def)

lemma extends_close:
  "flushed_when_open s \<Longrightarrow> extends_outbound s (onclose (s\<lparr>bridgeSocket := Some CLOSED\<rparr>))"
  by (simp add: extends_outbound_def outbound_def flushed_when_open_def onclose_def
      scheduleBridgeRetry_def log_def sendOrQueue_def)

lemma step_extends:
  assumes k: "flushed_when_open s" and c: "conn_inv s"
  shows "extends_outbound s (step s e)"
proof (cases e)
  case (Message p)
  then show ?thesis
    using extends_message [OF extends_outbound_refl [OF k]] by simp
next
  case BadMessage
  then show ?thesis using extends_outbound_refl [OF k] by simp
next
  case (Fire i)
  have "extends_outbound s (s\<lparr>timers := take i (timers s) @ drop (Suc i) (timers s)\<rparr>)"
    using extends_outbound_refl [OF k] by simp
  then show ?thesis
    using Fire extends_outbound_refl [OF k] by (simp add: fire_def extends_timer)
next
  case Mutation
  then show ?thesis using extends_outbound_refl [OF k] by simp
next
  case SocketOpen
  show ?thesis
  proof (cases "bridgeSocket s = Some CONNECTING")
    case True
    with c have "\<not> bridgeReady s" by (auto simp: conn_inv_def split: if_splits)
    with True k SocketOpen show ?thesis using extends_open by blast
  next
    case False
    with SocketOpen k show ?thesis by (simp add: extends_outbound_refl)
  qed
next
  case SocketClosing
  then show ?thesis
    using extends_not_open [OF extends_outbound_refl [OF k], of "Some CLOSING"]
    by (simp add: extends_outbound_refl k)
next
  case SocketError
  then show ?thesis
    using extends_outbound_refl [OF k] by (simp add: onerror_def)
next
  case SocketClose
  then show ?thesis
    using extends_close [OF k] by (simp add: extends_outbound_refl k)
next
  case PopupClose
  then show ?thesis using extends_outbound_refl [OF k] by simp
next
  case (EnvDom b es)
  then show ?thesis using extends_outbound_refl [OF k] by simp
next
  case (EnvCtor b)
  then show ?thesis using extends_outbound_refl [OF k] by simp
qed

lemma run_flushed:
  "flushed_when_open s \<Longrightarrow> conn_inv s \<Longrightarrow>
   flushed_when_open (run s evs) \<and> conn_inv (run s evs)"
proof (induction evs arbitrary: s)
  case Nil
  then show ?case by simp
next
  case (Cons e evs)
  have "flushed_when_open (step s e)"
    using step_extends [OF Cons.prems, of e] by (simp add: extends_outbound_def)
  moreover have "conn_inv (step s e)"
    using Cons.prems(2) by (rule step_conn)
  ultimately show ?case
    using Cons.IH by simp
qed

lemma init_flushed: "flushed_when_open (init (initial_state b es))"
  by (simp add: flushed_when_open_def init_connection)

lemma session_outbound:
  "\<exists>ms. outbound (step (run (init (initial_state b es)) evs) e) =
        outbound (run (init (initial_state b es)) evs) @ ms"
  using run_flushed [OF init_flushed init_conn, of b es evs]
    step_extends [of "run (init (initial_state b es)) evs" e]
  by (simp add: extends_outbound_def)

text \<open>
  Claim C8. While the connection is not ready (the flag \<open>bridgeReady\<close> is off or the
  socket is not open), every send is appended to the outbound queue, in order, and
  nothing is transmitted. When the connecting socket then opens, the frames transmitted
  are the queue from before, the frames sent meanwhile in the order of their sends, and
  the logger's own record of the connection, each once; the queue is empty afterwards.
  In every state the plugin reaches from \<open>init\<close>, a connecting socket comes with the flag
  off, so that its opening transmits the whole queue and empties it; and whatever event
  comes next, the frames handed to the bridge so far, transmitted and queued, stay as they
  are and in their order, new frames being added at the end.
\<close>

theorem queue_flushed_in_order:
  "(\<not> (bridgeReady s \<and> bridgeSocket s = Some OPEN) \<longrightarrow>
      bridgeQueue (sends ms s) = bridgeQueue s @ ms \<and> wire (sends ms s) = wire s) \<and>
   (bridgeSocket s = Some CONNECTING \<and> \<not> bridgeReady s \<longrightarrow>
      wire (step (sends ms s) SocketOpen) = wire s @ bridgeQueue s @ ms @ [connected_record] \<and>
      bridgeQueue (step (sends ms s) SocketOpen) = []) \<and>
   (bridgeSocket (run (init (initial_state b es)) evs) = Some CONNECTING \<longrightarrow>
      \<not> bridgeReady (run (init (initial_state b es)) evs) \<and>
      wire (step (run (init (initial_state b es)) evs) SocketOpen) =
        outbound (run (init (initial_state b es)) evs) @ [connected_record] \<and>
      bridgeQueue (step (run (init (initial_state b es)) evs) SocketOpen) = []) \<and>
   (\<exists>more. outbound (step (run (init (initial_state b es)) evs) e) =
             outbound (run (init (initial_state b es)) evs) @ more)"
proof -
  let ?r = "run (init (initial_state b es)) evs"
  have a: "bridgeQueue (sends ms s) = bridgeQueue s @ ms \<and> wire (sends ms s) = wire s"
    if "\<not> (bridgeReady s \<and> bridgeSocket s = Some OPEN)"
    using sends_not_ready [OF that] by blast
  have b: "wire (step (sends ms s) SocketOpen) = wire s @ bridgeQueue s @ ms @ [connected_record] \<and>
      bridgeQueue (step (sends ms s) SocketOpen) = []"
    if c: "bridgeSocket s = Some CONNECTING \<and> \<not> bridgeReady s"
  proof -
    from c have nr: "\<not> (bridgeReady s \<and> bridgeSocket s = Some OPEN)" by simp
    note q = sends_not_ready [OF nr, of ms]
    have d: "bridgeSocket (sends ms s) = Some CONNECTING" "\<not> bridgeReady (sends ms s)"
      using q c by simp_all
    show ?thesis
      using open_flushes(1) [OF d] open_flushes(2) [OF d] q by simp
  qed
  have c: "\<not> bridgeReady ?r \<and>
      wire (step ?r SocketOpen) = outbound ?r @ [connected_record] \<and>
      bridgeQueue (step ?r SocketOpen) = []"
    if h: "bridgeSocket ?r = Some CONNECTING"
  proof -
    have nr: "\<not> bridgeReady ?r"
      using run_conn [OF init_conn, of b es evs] h by (auto simp: conn_inv_def)
    show ?thesis
      using nr open_flushes(1) [OF h nr] open_flushes(2) [OF h nr] by (simp add: outbound_def)
  qed
  show ?thesis
    using a b c session_outbound [of b es evs e] by blast
qed

theorem queue_flushed_in_order_witness:
  "\<not> (bridgeReady fresh \<and> bridgeSocket fresh = Some OPEN) \<and>
   bridgeSocket fresh = Some CONNECTING \<and> \<not> bridgeReady fresh \<and>
   bridgeQueue (sends [ChromaLog ''debug'' ''first'', ChromaLog ''debug'' ''second''] fresh) =
     bridgeQueue fresh @ [ChromaLog ''debug'' ''first'', ChromaLog ''debug'' ''second''] \<and>
   wire (step (sends [ChromaLog ''debug'' ''first'', ChromaLog ''debug'' ''second''] fresh) SocketOpen) =
     [ChromaLog ''info'' ''Initializing LU-HistoricMode plugin'',
      ChromaLog ''debug'' ''Requesting historic flag image from Python'',
      RequestLocalAsset HISTORIC_FLAG_ASSET_PATH,
      ChromaLog ''info'' ''LU-HistoricMode plugin initialized'',
      ChromaLog ''debug'' ''first'', ChromaLog ''debug'' ''second'',
      ChromaLog ''info'' ''WebSocket bridge connected''] \<and>
   bridgeQueue (step (sends [ChromaLog ''debug'' ''first'', ChromaLog ''debug'' ''second''] fresh)
                  SocketOpen) = [] \<and>
   bridgeSocket (run (init (initial_state sample_body sample_elems)) [SocketError]) = Some CONNECTING \<and>
   \<not> bridgeReady (run (init (initial_state sample_body sample_elems)) [SocketError]) \<and>
   bridgeQueue (step (run (init (initial_state sample_body sample_elems)) [SocketError]) SocketOpen) = []"
proof -
  let ?ms = "[ChromaLog ''debug'' ''first'', ChromaLog ''debug'' ''second'']"
  note th = queue_flushed_in_order [of fresh ?ms sample_body sample_elems "[SocketError]" SocketOpen]
  have f: "bridgeSocket fresh = Some CONNECTING" "\<not> bridgeReady fresh" "wire fresh = []"
    "bridgeQueue fresh =
     [ChromaLog ''info'' ''Initializing LU-HistoricMode plugin'',
      ChromaLog ''debug'' ''Requesting historic flag image from Python'',
      RequestLocalAsset HISTORIC_FLAG_ASSET_PATH,
      ChromaLog ''info'' ''LU-HistoricMode plugin initialized'']"
    by (simp_all add: fresh_def init_connection)
  have e: "bridgeSocket (run (init (initial_state sample_body sample_elems)) [SocketError]) = Some CONNECTING"
    by (simp add: init_connection)
  from th f have a: "bridgeQueue (sends ?ms fresh) = bridgeQueue fresh @ ?ms"
    by simp
  from th f have b:
    "wire (step (sends ?ms fresh) SocketOpen) = wire fresh @ bridgeQueue fresh @ ?ms @ [connected_record]"
    "bridgeQueue (step (sends ?ms fresh) SocketOpen) = []"
    by simp_all
  from th e have c: "\<not> bridgeReady (run (init (initial_state sample_body sample_elems)) [SocketError])"
    "bridgeQueue (step (run (init (initial_state sample_body sample_elems)) [SocketError]) SocketOpen) = []"
    by blast+
  show ?thesis
    using a b c e f by (simp add: connected_record_def)
qed

end
